theory Spec2Isabelle
  imports Complex_Main "HOL-Library.Sublist"
begin

section \<open>Exceptions\<close>

text \<open>
  A raised exception is modelled by the class that decides which \<open>except\<close> clause of the
  sources catches it, and by the text \<open>str(e)\<close> that the handlers print or return.  The
  handlers of the sources name five classes:
  \<^item> \<open>subprocess.TimeoutExpired\<close> and \<open>FileNotFoundError\<close> (the troubleshooter),
  \<^item> \<open>requests.exceptions.ConnectionError\<close>, a subclass of
    \<open>requests.exceptions.RequestException\<close> (smoke test and troubleshooter),
  \<^item> \<open>Exception\<close>, the base class of all of the above.
  \<open>RequestException\<close> stands for a request exception that is no connection error,
  \<open>OtherException\<close> for any other instance of \<open>Exception\<close>, and \<open>NonException\<close> for
  an exception outside \<open>Exception\<close> (\<open>KeyboardInterrupt\<close>, \<open>SystemExit\<close>,
  \<open>GeneratorExit\<close>), which \<open>except Exception\<close> does not catch and a bare \<open>except:\<close>
  does.
\<close>

datatype exn_class =
    TimeoutExpired | FileNotFoundError | ConnectionError | RequestException
  | OtherException | NonException

datatype exn = Exn exn_class string

fun class_of :: "exn \<Rightarrow> exn_class" where
  "class_of (Exn c m) = c"

fun exn_str :: "exn \<Rightarrow> string" where
  "exn_str (Exn c m) = m"

definition is_Exception :: "exn \<Rightarrow> bool" where
  "is_Exception e \<longleftrightarrow> class_of e \<noteq> NonException"

definition is_ConnectionError :: "exn \<Rightarrow> bool" where
  "is_ConnectionError e \<longleftrightarrow> class_of e = ConnectionError"

definition is_RequestException :: "exn \<Rightarrow> bool" where
  "is_RequestException e \<longleftrightarrow> class_of e = ConnectionError \<or> class_of e = RequestException"

text \<open>
  A call either raises (\<open>Inl\<close>) or returns (\<open>Inr\<close>); \<open>bind_exn\<close> is the sequencing of two
  statements, where an exception of the first skips the second.
\<close>

definition bind_exn :: "exn + 'a \<Rightarrow> ('a \<Rightarrow> exn + 'b) \<Rightarrow> exn + 'b" where
  "bind_exn r f = (case r of Inl e \<Rightarrow> Inl e | Inr x \<Rightarrow> f x)"

section \<open>Printing\<close>

text \<open>
  \<open>print\<close> encodes its text for \<open>sys.stdout\<close> and raises \<open>UnicodeEncodeError\<close>, an
  instance of \<open>Exception\<close>, for a character outside the encoding.  Apart from the values
  they format, the texts the sources print are ASCII but for one sign at the start of
  many lines (a check mark, a cross mark, a warning sign and so on), which UTF-8 encodes
  and cp1252, Latin-1 and ASCII do not.  So a line is printed with the code point of its
  sign, if it has one, and \<open>encodes\<close> tells whether the encoding of \<open>sys.stdout\<close> has
  the signs; the values that a line formats are taken to be text that an encoding with
  the signs has as well.  The text of the exception depends on the codec; it is
  represented by the code point that cannot be encoded.  Other failures of \<open>print\<close> (a
  closed stream) are not modelled.
\<close>

definition encode_error :: "string \<Rightarrow> exn" where
  "encode_error sign = Exn OtherException (''UnicodeEncodeError: '' @ sign)"

definition print_raises :: "bool \<Rightarrow> string option \<Rightarrow> exn option" where
  "print_raises encodes sign =
     (case sign of
        None \<Rightarrow> None
      | Some c \<Rightarrow> if encodes then None else Some (encode_error c))"

section \<open>HTTP responses\<close>

text \<open>
  What the sources read of a \<open>requests\<close> response: \<open>status_code\<close>, \<open>text\<close> and the
  result of \<open>json()\<close>, which raises when the body is no JSON document.  Of a decoded
  body the sources only call \<open>get\<close>, which a JSON object (a dict, here with the printed
  form of each value) has and no other JSON value has; \<open>JOther\<close> stands for such a
  value and carries the name of its Python type (\<open>list\<close>, \<open>str\<close>, \<open>int\<close>, ...).
\<close>

datatype json_value = JObject "(string \<times> string) list" | JOther string

record response =
  status_code :: int
  resp_text :: string
  resp_json :: "exn + json_value"

section \<open>Python strings, lists and dicts\<close>

text \<open>
  A string is a list of characters with code points below 128 (the command output and the
  messages the claims are about are ASCII).  \<open>isspace\<close> is \<open>str.isspace\<close> on one such
  character: tab, line feed, vertical tab, form feed, carriage return, the four separators
  \<open>0x1C\<close>--\<open>0x1F\<close> and the space.
\<close>

definition isspace :: "char \<Rightarrow> bool" where
  "isspace c \<longleftrightarrow>
     c \<in> set [CHR 0x09, CHR 0x0A, CHR 0x0B, CHR 0x0C, CHR 0x0D,
              CHR 0x1C, CHR 0x1D, CHR 0x1E, CHR 0x1F, CHR 0x20]"

text \<open>\<open>s.strip()\<close>: the string without its leading and trailing whitespace.\<close>

definition py_strip :: "string \<Rightarrow> string" where
  "py_strip s = rev (dropWhile isspace (rev (dropWhile isspace s)))"

text \<open>
  \<open>s.split(sep)\<close> for a separator of one character: the pieces between the
  separators, empty pieces included, so the result is never the empty list.
\<close>

fun py_split :: "char \<Rightarrow> string \<Rightarrow> string list" where
  "py_split sep [] = [[]]"
| "py_split sep (c # cs) =
     (if c = sep then [] # py_split sep cs
      else (case py_split sep cs of
              [] \<Rightarrow> [[c]]
            | w # ws \<Rightarrow> (c # w) # ws))"

text \<open>
  \<open>s.split()\<close>: the maximal runs of characters that are not whitespace; \<open>cur\<close> is the
  run being read.
\<close>

fun split_ws_from :: "string \<Rightarrow> string \<Rightarrow> string list" where
  "split_ws_from cur [] = (if cur = [] then [] else [cur])"
| "split_ws_from cur (c # cs) =
     (if isspace c then (if cur = [] then split_ws_from [] cs else cur # split_ws_from [] cs)
      else split_ws_from (cur @ [c]) cs)"

definition py_split_ws :: "string \<Rightarrow> string list" where
  "py_split_ws s = split_ws_from [] s"

text \<open>\<open>needle in hay\<close> on strings: \<open>needle\<close> occurs in \<open>hay\<close> as a contiguous block.\<close>

definition py_in :: "string \<Rightarrow> string \<Rightarrow> bool" where
  "py_in needle hay = sublist needle hay"

text \<open>\<open>str(n)\<close> (and \<open>f"{n}"\<close>) for an integer \<open>n \<ge> 0\<close>: its decimal digits.\<close>

definition digit_char :: "nat \<Rightarrow> char" where
  "digit_char n = ''0123456789abcdef'' ! n"

fun str_nat :: "nat \<Rightarrow> string" where
  "str_nat n =
     (if n < 10 then [digit_char n]
      else str_nat (n div 10) @ [digit_char (n mod 10)])"

declare str_nat.simps [simp del]

text \<open>
  \<open>repr(s)\<close> of a string: the quote is \<open>"\<close> when \<open>s\<close> has a \<open>'\<close> and no \<open>"\<close>, and
  \<open>'\<close> otherwise; the quote and the backslash are escaped by a backslash; tab, line feed
  and carriage return are written \<open>\t\<close>, \<open>\n\<close>, \<open>\r\<close>; any other character below 32,
  and 127, is written \<open>\xhh\<close>.
\<close>

definition repr_char :: "char \<Rightarrow> char \<Rightarrow> string" where
  "repr_char q c =
     (if c = q \<or> c = CHR 0x5C then [CHR 0x5C, c]
      else if c = CHR 0x09 then [CHR 0x5C, CHR ''t'']
      else if c = CHR 0x0A then [CHR 0x5C, CHR ''n'']
      else if c = CHR 0x0D then [CHR 0x5C, CHR ''r'']
      else if of_char c < (32::nat) \<or> c = CHR 0x7F
        then [CHR 0x5C, CHR ''x'', digit_char (of_char c div 16), digit_char (of_char c mod 16)]
      else [c])"

definition py_repr :: "string \<Rightarrow> string" where
  "py_repr s =
     (let q = (if CHR 0x27 \<in> set s \<and> CHR 0x22 \<notin> set s then CHR 0x22 else CHR 0x27)
      in q # concat (map (repr_char q) s) @ [q])"

text \<open>
  A string is plain when \<open>repr\<close> leaves every character as it is and chooses the quote
  \<open>'\<close>: it has no quote \<open>'\<close>, no backslash and no control character.
\<close>

definition plain :: "string \<Rightarrow> bool" where
  "plain s \<longleftrightarrow> (\<forall>c \<in> set s. repr_char (CHR 0x27) c = [c]) \<and> CHR 0x27 \<notin> set s"

text \<open>\<open>sep.join(xs)\<close>.\<close>

fun join :: "string \<Rightarrow> string list \<Rightarrow> string" where
  "join sep [] = []"
| "join sep [x] = x"
| "join sep (x # y # ys) = x @ sep @ join sep (y # ys)"

text \<open>\<open>str(xs)\<close> of a list of strings: the \<open>repr\<close> of the items, between brackets.\<close>

definition py_str_list :: "string list \<Rightarrow> string" where
  "py_str_list xs = ''['' @ join '', '' (map py_repr xs) @ '']''"

text \<open>
  A dict is the list of its items in insertion order.  \<open>d[k] = v\<close> replaces the value of
  a key that is present, which keeps its place, and adds a new key at the end.
\<close>

fun dict_set :: "'k \<Rightarrow> 'v \<Rightarrow> ('k \<times> 'v) list \<Rightarrow> ('k \<times> 'v) list" where
  "dict_set k v [] = [(k, v)]"
| "dict_set k v ((k', v') # d) = (if k' = k then (k, v) # d else (k', v') # dict_set k v d)"

section \<open>Monitoring troubleshooter: \<open>troubleshoot_monitoring.py\<close>\<close>

text \<open>The table \<open>self.services\<close> of \<open>MonitoringTroubleshooter.__init__\<close>, in its order.\<close>

record service_info =
  url :: string
  port :: nat

definition services :: "(string \<times> service_info) list" where
  "services =
    [(''grafana'', \<lparr>url = ''http://localhost:3000'', port = 3000\<rparr>),
     (''prometheus'', \<lparr>url = ''http://localhost:9090'', port = 9090\<rparr>),
     (''housing-api'', \<lparr>url = ''http://localhost:8000'', port = 8000\<rparr>),
     (''iris-api'', \<lparr>url = ''http://localhost:8001'', port = 8001\<rparr>),
     (''retraining'', \<lparr>url = ''http://localhost:8002'', port = 8002\<rparr>),
     (''mlflow'', \<lparr>url = ''http://localhost:5000'', port = 5000\<rparr>)]"

text \<open>The result of \<open>subprocess.run(..., capture_output=True, text=True)\<close>.\<close>

record completed_process =
  returncode :: int
  stdout :: string
  stderr :: string

text \<open>
  The surroundings of one diagnostic run: what each external call of the checks returns or
  raises.  \<open>run_docker_info\<close>, \<open>run_compose_config\<close> and \<open>run_compose_ps\<close> are the three
  \<open>subprocess.run\<close> calls, \<open>compose_file_exists\<close> is \<open>os.path.exists\<close> on the compose
  file, \<open>connect_ex\<close> is \<open>sock.connect_ex(('localhost', port))\<close>, and \<open>requests_get\<close> is
  \<open>requests.get\<close> on a URL (every URL is requested once in a run).
\<close>

record diag_env =
  run_docker_info :: "exn + completed_process"
  compose_file_exists :: bool
  run_compose_config :: "exn + completed_process"
  run_compose_ps :: "exn + completed_process"
  connect_ex :: "nat \<Rightarrow> exn + int"
  requests_get :: "string \<Rightarrow> exn + response"

text \<open>The clause \<open>except (subprocess.TimeoutExpired, FileNotFoundError)\<close>.\<close>

definition timeout_or_not_found :: "exn \<Rightarrow> bool" where
  "timeout_or_not_found e \<longleftrightarrow> class_of e = TimeoutExpired \<or> class_of e = FileNotFoundError"

definition check_docker_status :: "diag_env \<Rightarrow> exn + bool \<times> string" where
  "check_docker_status env =
     (case run_docker_info env of
        Inr result \<Rightarrow>
          if returncode result = 0 then Inr (True, ''Docker is running'')
          else Inr (False, ''Docker error: '' @ stderr result)
      | Inl e \<Rightarrow>
          if timeout_or_not_found e then Inr (False, ''Docker is not installed or not running'')
          else Inl e)"

definition check_compose_file :: "diag_env \<Rightarrow> exn + bool \<times> string" where
  "check_compose_file env =
     (if \<not> compose_file_exists env then Inr (False, ''docker-compose.monitoring.yml not found'')
      else
        (case run_compose_config env of
           Inr result \<Rightarrow>
             if returncode result = 0 then Inr (True, ''Docker compose file is valid'')
             else Inr (False, ''Docker compose file error: '' @ stderr result)
         | Inl e \<Rightarrow>
             if timeout_or_not_found e then Inr (False, ''docker-compose not found or timeout'')
             else Inl e))"

text \<open>
  \<open>check_container_status\<close>.  An entry of the returned dict is
  \<open>{'status': state, 'running': 'Up' in state}\<close>; \<open>parse_lines\<close> is the loop over the
  lines (lines 84--93), with the dict built so far.
\<close>

record container_info =
  status :: string
  running :: bool

fun parse_lines ::
  "string list \<Rightarrow> (string \<times> container_info) list \<Rightarrow> (string \<times> container_info) list" where
  "parse_lines [] container_status = container_status"
| "parse_lines (line # lines) container_status =
     (if py_strip line \<noteq> [] then
        (let parts = py_split_ws line in
         if length parts \<ge> 4 then
           (let name = hd parts; state = last parts in
            parse_lines lines
              (dict_set name \<lparr>status = state, running = py_in ''Up'' state\<rparr> container_status))
         else parse_lines lines container_status)
      else parse_lines lines container_status)"

definition check_container_status :: "diag_env \<Rightarrow> exn + (string \<times> container_info) list" where
  "check_container_status env =
     (case run_compose_ps env of
        Inr result \<Rightarrow>
          if returncode result \<noteq> 0 then Inr []
          else Inr (parse_lines (drop 2 (py_split CHR 0x0A (py_strip (stdout result)))) [])
      | Inl e \<Rightarrow> if timeout_or_not_found e then Inr [] else Inl e)"

text \<open>
  \<open>check_port_availability\<close>: one \<open>connect_ex\<close> per service; an exception of a call
  leaves the loop and the function.
\<close>

fun port_loop ::
  "diag_env \<Rightarrow> (string \<times> service_info) list \<Rightarrow> (string \<times> bool) list \<Rightarrow>
   exn + (string \<times> bool) list" where
  "port_loop env [] port_status = Inr port_status"
| "port_loop env ((service, info) # rest) port_status =
     (case connect_ex env (port info) of
        Inl e \<Rightarrow> Inl e
      | Inr result \<Rightarrow> port_loop env rest (dict_set service (result = 0) port_status))"

definition check_port_availability :: "diag_env \<Rightarrow> exn + (string \<times> bool) list" where
  "check_port_availability env = port_loop env services []"

text \<open>
  \<open>check_service_health\<close>.  An entry is \<open>{'healthy': status_code == 200, 'status_code':
  ..., 'response_time': ...}\<close> after a response, and \<open>{'healthy': False, 'error': str(e),
  'response_time': None}\<close> after a \<open>RequestException\<close>; the response time is left out.
  Any other exception leaves the function.
\<close>

datatype health = Health_response bool int | Health_error string

fun healthy :: "health \<Rightarrow> bool" where
  "healthy (Health_response h c) = h"
| "healthy (Health_error m) = False"

definition health_url :: "string \<Rightarrow> service_info \<Rightarrow> string" where
  "health_url service info =
     (if service = ''grafana'' then url info @ ''/api/health''
      else if service = ''prometheus'' then url info @ ''/-/healthy''
      else url info @ ''/health'')"

fun health_loop ::
  "diag_env \<Rightarrow> (string \<times> service_info) list \<Rightarrow> (string \<times> health) list \<Rightarrow>
   exn + (string \<times> health) list" where
  "health_loop env [] health_status = Inr health_status"
| "health_loop env ((service, info) # rest) health_status =
     (case requests_get env (health_url service info) of
        Inr response \<Rightarrow>
          health_loop env rest
            (dict_set service
               (Health_response (status_code response = 200) (status_code response)) health_status)
      | Inl e \<Rightarrow>
          if is_RequestException e
          then health_loop env rest (dict_set service (Health_error (exn_str e)) health_status)
          else Inl e)"

definition check_service_health :: "diag_env \<Rightarrow> exn + (string \<times> health) list" where
  "check_service_health env = health_loop env services []"

text \<open>
  \<open>check_metrics_availability\<close>: both \<open>try\<close> blocks end in a bare \<open>except:\<close>, which
  catches every exception, also the \<open>KeyError\<close> of \<open>self.services[api]\<close>.
\<close>

definition metrics_answer :: "exn + response \<Rightarrow> bool" where
  "metrics_answer r = (case r of Inr response \<Rightarrow> status_code response = 200 | Inl e \<Rightarrow> False)"

definition api_metrics :: "diag_env \<Rightarrow> string \<Rightarrow> bool" where
  "api_metrics env api =
     (case map_of services api of
        None \<Rightarrow> False
      | Some info \<Rightarrow>
          metrics_answer
            (requests_get env (''http://localhost:'' @ str_nat (port info) @ ''/mlops-metrics'')))"

definition check_metrics_availability :: "diag_env \<Rightarrow> (string \<times> bool) list" where
  "check_metrics_availability env =
     fold (\<lambda>api metrics_status. dict_set api (api_metrics env api) metrics_status)
       [''housing-api'', ''iris-api'']
       (dict_set ''prometheus''
          (metrics_answer (requests_get env ''http://localhost:9090/api/v1/query?query=up'')) [])"

text \<open>
  \<open>suggest_fixes\<close>.  Each hint starts with the wrench sign U+1F527, here the four bytes of
  its UTF-8 form.
\<close>

definition wrench :: string where
  "wrench = [CHR 0xF0, CHR 0x9F, CHR 0x94, CHR 0xA7]"

definition suggest_fixes :: "string list \<Rightarrow> string list" where
  "suggest_fixes issues =
     (if py_in ''Docker is not running'' (py_str_list issues)
      then [wrench @ '' Start Docker Desktop or Docker daemon'',
            ''   Windows: Start Docker Desktop application'',
            ''   Linux: sudo systemctl start docker'']
      else []) @
     (if py_in ''docker-compose.monitoring.yml not found'' (py_str_list issues)
      then [wrench @ '' Make sure you'' @ [CHR 0x27] @ ''re in the project root directory'',
            ''   cd /path/to/mlops-housing-pipeline'']
      else []) @
     (if py_in ''containers not running'' (py_str_list issues)
      then [wrench @ '' Start the services:'',
            ''   docker-compose -f docker-compose.monitoring.yml up -d'']
      else []) @
     (if py_in ''port conflicts'' (py_str_list issues)
      then [wrench @ '' Stop conflicting services or change ports'',
            ''   Check what'' @ [CHR 0x27] @ ''s using the ports: netstat -an | findstr :3000'']
      else []) @
     (if py_in ''services not healthy'' (py_str_list issues)
      then [wrench @ '' Wait a few minutes for services to start'',
            wrench @ '' Check logs: docker-compose -f docker-compose.monitoring.yml logs'',
            wrench @ '' Restart services: docker-compose -f docker-compose.monitoring.yml restart'']
      else []) @
     (if py_in ''no metrics'' (py_str_list issues)
      then [wrench @ '' Generate some data: python test_api_samples.py'',
            wrench @ '' Check Prometheus targets: http://localhost:9090/targets'']
      else [])"

text \<open>
  \<open>run_diagnostics\<close>.  The four loops that add to \<open>issues\<close> (lines 224--229, 237--243,
  248--255 and 260--265) come first.  The status line printed for each check is left out;
  the result has the list of issues, the hints printed under "Suggested Fixes" and the
  returned truth value.
\<close>

fun container_issues :: "(string \<times> container_info) list \<Rightarrow> string list \<Rightarrow> string list" where
  "container_issues [] issues = issues"
| "container_issues ((name, st) # rest) issues =
     container_issues rest
       (if running st then issues else issues @ [''Container '' @ name @ '' not running''])"

text \<open>
  \<open>self.services[service]\<close> raises \<open>KeyError\<close> for a name that is no key of the table;
  \<open>str\<close> of a \<open>KeyError\<close> is the \<open>repr\<close> of the key.
\<close>

fun port_issues :: "(string \<times> bool) list \<Rightarrow> string list \<Rightarrow> exn + string list" where
  "port_issues [] issues = Inr issues"
| "port_issues ((service, available) # rest) issues =
     (case map_of services service of
        None \<Rightarrow> Inl (Exn OtherException (py_repr service))
      | Some info \<Rightarrow>
          port_issues rest
            (if available then issues
             else issues @ [''Port '' @ str_nat (port info) @ '' not accessible'']))"

fun health_issues :: "(string \<times> health) list \<Rightarrow> string list \<Rightarrow> string list" where
  "health_issues [] issues = issues"
| "health_issues ((service, h) # rest) issues =
     health_issues rest
       (if healthy h then issues else issues @ [''Service '' @ service @ '' unhealthy''])"

fun metrics_issues :: "(string \<times> bool) list \<Rightarrow> string list \<Rightarrow> string list" where
  "metrics_issues [] issues = issues"
| "metrics_issues ((service, available) # rest) issues =
     metrics_issues rest (if available then issues else issues @ [''no metrics''])"

text \<open>
  The strings that line 243 can add for the ports of the table and line 255 for its
  services.
\<close>

definition issue_strings :: "string list" where
  "issue_strings =
     map (\<lambda>(s, info). ''Port '' @ str_nat (port info) @ '' not accessible'') services @
     map (\<lambda>s. ''Service '' @ s @ '' unhealthy'') (map fst services)"

record diag_result =
  issues :: "string list"
  suggested :: "string list"
  all_good :: bool

definition run_diagnostics :: "diag_env \<Rightarrow> exn + diag_result" where
  "run_diagnostics env =
     bind_exn (check_docker_status env) (\<lambda>(docker_ok, docker_msg).
     bind_exn (check_compose_file env) (\<lambda>(compose_ok, compose_msg).
     bind_exn (check_container_status env) (\<lambda>container_status.
     bind_exn (check_port_availability env) (\<lambda>port_status.
     bind_exn
       (port_issues port_status
          (let issues1 = (if docker_ok then [] else [docker_msg]);
               issues2 = (if compose_ok then issues1 else issues1 @ [compose_msg])
           in if container_status \<noteq> [] then container_issues container_status issues2
              else issues2 @ [''containers not running'']))
       (\<lambda>issues3.
     bind_exn (check_service_health env) (\<lambda>health_status.
       (let issues4 = health_issues health_status issues3;
            issues5 = metrics_issues (check_metrics_availability env) issues4
        in Inr \<lparr>issues = issues5,
                suggested = (if issues5 \<noteq> [] then suggest_fixes issues5 else []),
                all_good = (issues5 = [])\<rparr>)))))))"

text \<open>
  An example run: Docker and the compose file are fine, \<open>ps\<close> prints four lines after
  its two header lines (one of them with two fields only, two of them for the same name),
  nothing listens on port 3000, the health request to Grafana is refused, and every other
  request is answered with status 200.
\<close>

definition example_ps :: completed_process where
  "example_ps =
     \<lparr>returncode = 0,
      stdout = ''NAME IMAGE COMMAND STATE'' @ [CHR 0x0A] @
               ''------------------------'' @ [CHR 0x0A] @
               ''grafana grafana/grafana /run.sh Exit'' @ [CHR 0x0A] @
               ''prometheus Up'' @ [CHR 0x0A] @
               ''mlflow  mlflow:latest  server  Up'' @ [CHR 0x0A] @
               ''grafana grafana/grafana /run.sh Up'' @ [CHR 0x0A],
      stderr = []\<rparr>"

definition example_env :: diag_env where
  "example_env =
     \<lparr>run_docker_info = Inr \<lparr>returncode = 0, stdout = [], stderr = []\<rparr>,
      compose_file_exists = True,
      run_compose_config = Inr \<lparr>returncode = 0, stdout = [], stderr = []\<rparr>,
      run_compose_ps = Inr example_ps,
      connect_ex = (\<lambda>p. Inr (if p = 3000 then 111 else 0)),
      requests_get = (\<lambda>u.
        if u = ''http://localhost:3000/api/health'' then Inl (Exn ConnectionError ''refused'')
        else Inr \<lparr>status_code = 200, resp_text = [], resp_json = Inr (JOther ''list'')\<rparr>)\<rparr>"

text \<open>
  A second \<open>ps\<close> output: after the two header lines, one line with a name and a state
  and nothing between them.
\<close>

definition two_field_env :: diag_env where
  "two_field_env =
     example_env
       \<lparr>run_compose_ps :=
          Inr \<lparr>returncode = 0,
               stdout = ''NAME STATE'' @ [CHR 0x0A] @ ''----------'' @ [CHR 0x0A] @
                        ''prometheus Up'' @ [CHR 0x0A],
               stderr = []\<rparr>\<rparr>"

section \<open>Smoke test: \<open>test_api.py\<close>\<close>

text \<open>
  The lines the two endpoint checks print, one constructor per \<open>print\<close> statement:
  \<^item> \<open>Testing_header\<close>: magnifying glass, \<open>Testing API endpoints...\<close> (line 39);
  \<^item> \<open>Ok_line d p\<close>: check mark, \<open>{d} ({p}): OK\<close> (line 47);
  \<^item> \<open>Response_line j\<close>: \<open>Response: {response.json()}\<close> (line 49);
  \<^item> \<open>Preview_line ls\<close>: \<open>Prometheus metrics preview: {lines}\<close> (line 52);
  \<^item> \<open>Http_line d p s\<close>: cross mark, \<open>{d} ({p}): HTTP {s}\<close> (line 54);
  \<^item> \<open>Not_running_line d p\<close>: warning sign, \<open>{d} ({p}): Server not running\<close> (line 57);
  \<^item> \<open>Error_line d p m\<close>: cross mark, \<open>{d} ({p}): {e}\<close> (line 59);
  \<^item> \<open>Prediction_ok\<close>: check mark, \<open>Prediction endpoint: OK\<close> (line 83);
  \<^item> \<open>Predicted_price v\<close>: \<open>Predicted price: {v}\<close> (line 84);
  \<^item> \<open>Prediction_http s\<close>: cross mark, \<open>Prediction endpoint: HTTP {s}\<close> (line 86);
  \<^item> \<open>Prediction_response t\<close>: \<open>Response: {response.text}\<close> (line 87);
  \<^item> \<open>Prediction_not_running\<close>: warning sign, \<open>Prediction endpoint: Server not running\<close>
    (line 90);
  \<^item> \<open>Prediction_error m\<close>: cross mark, \<open>Prediction endpoint: {e}\<close> (line 92).
\<close>

datatype smoke_line =
    Testing_header
  | Ok_line string string
  | Response_line json_value
  | Preview_line "string list"
  | Http_line string string int
  | Not_running_line string string
  | Error_line string string string
  | Prediction_ok
  | Predicted_price string
  | Prediction_http int
  | Prediction_response string
  | Prediction_not_running
  | Prediction_error string

text \<open>The sign of a line: its code point, or \<open>None\<close> for a line without a sign.\<close>

fun smoke_sign :: "smoke_line \<Rightarrow> string option" where
  "smoke_sign Testing_header = Some ''U+1F50D''"
| "smoke_sign (Ok_line d p) = Some ''U+2705''"
| "smoke_sign (Response_line j) = None"
| "smoke_sign (Preview_line ls) = None"
| "smoke_sign (Http_line d p s) = Some ''U+274C''"
| "smoke_sign (Not_running_line d p) = Some ''U+26A0''"
| "smoke_sign (Error_line d p m) = Some ''U+274C''"
| "smoke_sign Prediction_ok = Some ''U+2705''"
| "smoke_sign (Predicted_price v) = None"
| "smoke_sign (Prediction_http s) = Some ''U+274C''"
| "smoke_sign (Prediction_response t) = None"
| "smoke_sign Prediction_not_running = Some ''U+26A0''"
| "smoke_sign (Prediction_error m) = Some ''U+274C''"

text \<open>
  A piece of the script gives the exception that ends it (\<open>None\<close> when it ends normally)
  and the lines it has printed.  \<open>print_line\<close> is one \<open>print\<close>; \<open>and_then\<close> is the
  sequencing of two pieces, where an exception of the first skips the second.
\<close>

definition print_line :: "bool \<Rightarrow> smoke_line \<Rightarrow> exn option \<times> smoke_line list" where
  "print_line encodes l =
     (case print_raises encodes (smoke_sign l) of Some e \<Rightarrow> (Some e, []) | None \<Rightarrow> (None, [l]))"

definition and_then ::
  "exn option \<times> smoke_line list \<Rightarrow> exn option \<times> smoke_line list \<Rightarrow>
   exn option \<times> smoke_line list" where
  "and_then a b =
     (case a of
        (Some e, out) \<Rightarrow> (Some e, out)
      | (None, out) \<Rightarrow> (case b of (r, out') \<Rightarrow> (r, out @ out')))"

definition base_url :: string where
  "base_url = ''http://127.0.0.1:8000''"

text \<open>The list \<open>endpoints_to_test\<close>: endpoint, method, description.\<close>

definition endpoints_to_test :: "(string \<times> string \<times> string) list" where
  "endpoints_to_test =
     [(''/'', ''GET'', ''Root endpoint''),
      (''/health'', ''GET'', ''Health check''),
      (''/app-metrics'', ''GET'', ''Application metrics''),
      (''/metrics'', ''GET'', ''Prometheus metrics'')]"

text \<open>
  The body of the \<open>try\<close> in the loop of \<open>test_api_endpoints\<close> (lines 43--54) for one
  entry of the list.  \<open>get\<close> is \<open>requests.get\<close> on a URL.
\<close>

definition endpoint_try ::
  "bool \<Rightarrow> (string \<Rightarrow> exn + response) \<Rightarrow> string \<times> string \<times> string \<Rightarrow>
   exn option \<times> smoke_line list" where
  "endpoint_try encodes get ep =
     (case ep of (endpoint, method, description) \<Rightarrow>
        (case get (base_url @ endpoint) of
           Inl e \<Rightarrow> (Some e, [])
         | Inr response \<Rightarrow>
             if status_code response = 200 then
               and_then (print_line encodes (Ok_line description endpoint))
                 (if endpoint = ''/app-metrics'' then
                    (case resp_json response of
                       Inl e \<Rightarrow> (Some e, [])
                     | Inr j \<Rightarrow> print_line encodes (Response_line j))
                  else if endpoint = ''/metrics'' then
                    print_line encodes
                      (Preview_line (take 5 (py_split (CHR 0x0A) (resp_text response))))
                  else (None, []))
             else print_line encodes (Http_line description endpoint (status_code response))))"

text \<open>
  One iteration with its two handlers: \<open>except requests.exceptions.ConnectionError\<close>
  first, \<open>except Exception as e\<close> second.  An exception that neither catches, or that the
  \<open>print\<close> of a handler raises, leaves the iteration.
\<close>

definition check_endpoint ::
  "bool \<Rightarrow> (string \<Rightarrow> exn + response) \<Rightarrow> string \<times> string \<times> string \<Rightarrow>
   exn option \<times> smoke_line list" where
  "check_endpoint encodes get ep =
     (case ep of (endpoint, method, description) \<Rightarrow>
        (case endpoint_try encodes get ep of
           (None, out) \<Rightarrow> (None, out)
         | (Some e, out) \<Rightarrow>
             if is_ConnectionError e
               then and_then (None, out) (print_line encodes (Not_running_line description endpoint))
             else if is_Exception e
               then and_then (None, out)
                      (print_line encodes (Error_line description endpoint (exn_str e)))
             else (Some e, out)))"

text \<open>The \<open>for\<close> loop: an exception that leaves an iteration leaves the loop.\<close>

fun endpoints_loop ::
  "bool \<Rightarrow> (string \<Rightarrow> exn + response) \<Rightarrow> (string \<times> string \<times> string) list \<Rightarrow>
   exn option \<times> smoke_line list" where
  "endpoints_loop encodes get [] = (None, [])"
| "endpoints_loop encodes get (ep # eps) =
     and_then (check_endpoint encodes get ep) (endpoints_loop encodes get eps)"

text \<open>
  \<open>test_api_endpoints\<close>: the exception it propagates to its caller (\<open>None\<close> when it
  returns) and the lines it prints.  The \<open>print\<close> of line 39 is outside every \<open>try\<close>.
\<close>

definition test_api_endpoints ::
  "bool \<Rightarrow> (string \<Rightarrow> exn + response) \<Rightarrow> exn option \<times> smoke_line list" where
  "test_api_endpoints encodes get =
     and_then (print_line encodes Testing_header) (endpoints_loop encodes get endpoints_to_test)"

text \<open>
  \<open>result.get('predicted_price', 'N/A')\<close>: the value of the key or the default for a
  JSON object, and an \<open>AttributeError\<close> for any other JSON value.
\<close>

definition json_get :: "json_value \<Rightarrow> string \<Rightarrow> string \<Rightarrow> exn + string" where
  "json_get j k dflt =
     (case j of
        JObject kvs \<Rightarrow> (case map_of kvs k of None \<Rightarrow> Inr dflt | Some v \<Rightarrow> Inr v)
      | JOther ty \<Rightarrow>
          Inl (Exn OtherException
                 ([CHR 0x27] @ ty @ [CHR 0x27] @ '' object has no attribute '' @
                  [CHR 0x27] @ ''get'' @ [CHR 0x27])))"

text \<open>
  The body of the \<open>try\<close> of \<open>test_prediction_endpoint\<close> (lines 78--87); \<open>post\<close> is
  \<open>requests.post\<close> of the fixed sample on a URL.  \<open>response.json()\<close> is read before the
  first \<open>print\<close>, and \<open>result.get\<close> is called inside the second.
\<close>

definition prediction_try ::
  "bool \<Rightarrow> (string \<Rightarrow> exn + response) \<Rightarrow> exn option \<times> smoke_line list" where
  "prediction_try encodes post =
     (case post (base_url @ ''/predict'') of
        Inl e \<Rightarrow> (Some e, [])
      | Inr response \<Rightarrow>
          if status_code response = 200 then
            (case resp_json response of
               Inl e \<Rightarrow> (Some e, [])
             | Inr result \<Rightarrow>
                 and_then (print_line encodes Prediction_ok)
                   (case json_get result ''predicted_price'' ''N/A'' of
                      Inl e \<Rightarrow> (Some e, [])
                    | Inr v \<Rightarrow> print_line encodes (Predicted_price v)))
          else and_then (print_line encodes (Prediction_http (status_code response)))
                 (print_line encodes (Prediction_response (resp_text response))))"

definition test_prediction_endpoint ::
  "bool \<Rightarrow> (string \<Rightarrow> exn + response) \<Rightarrow> exn option \<times> smoke_line list" where
  "test_prediction_endpoint encodes post =
     (case prediction_try encodes post of
        (None, out) \<Rightarrow> (None, out)
      | (Some e, out) \<Rightarrow>
          if is_ConnectionError e
            then and_then (None, out) (print_line encodes Prediction_not_running)
          else if is_Exception e
            then and_then (None, out) (print_line encodes (Prediction_error (exn_str e)))
          else (Some e, out))"

text \<open>
  Two services for the examples: one answers every \<open>GET\<close> with status 200 and every
  \<open>POST\<close> with status 500; the other answers \<open>POST\<close> with status 200 and a body that is
  no JSON document.
\<close>

definition mock_get :: "string \<Rightarrow> exn + response" where
  "mock_get u = Inr \<lparr>status_code = 200, resp_text = ''ok'', resp_json = Inr (JObject [])\<rparr>"

definition mock_post_500 :: "string \<Rightarrow> exn + response" where
  "mock_post_500 u =
     Inr \<lparr>status_code = 500, resp_text = ''Internal Server Error'',
          resp_json = Inl (Exn OtherException ''Expecting value'')\<rparr>"


section \<open>Retraining job: \<open>one/retrain_housing.py\<close>\<close>

text \<open>
  The entry \<open>{'mse': mse, 'r2': r2, 'run_id': run.info.run_id}\<close> that
  \<open>train_and_log_model\<close> stores for a model.  \<open>mean_squared_error\<close> and \<open>r2_score\<close>
  return floats that are not NaN; they are modelled by the real numbers they denote, and
  \<open><\<close> on them is the order of the reals.
\<close>

record metrics =
  mse :: real
  r2 :: real
  run_id :: string

text \<open>The two estimators of lines 81 and 82; the number is \<open>max_depth\<close>.\<close>

datatype estimator = LinearRegression | DecisionTreeRegressor nat

text \<open>The dict \<open>retrain_results\<close> (lines 109--115), which is written and returned.\<close>

record retrain_results =
  retrain_timestamp :: string
  best_model :: string
  performance :: metrics
  all_models :: "(string \<times> metrics) list"
  data_source :: string

text \<open>
  What a call gives its caller: the summary, the dict \<open>{"error": str(e)}\<close>, or an
  exception.
\<close>

datatype return_value = Results retrain_results | Error_dict string

datatype outcome = Returns return_value | Raises exn

text \<open>
  The lines the job prints, one constructor per \<open>print\<close> statement: lines 25, 28, 71,
  85, 86, 88, 94, 95, 96, 104, 106, 120 and 124 of the source, in this order.  A number
  that the source formats with \<open>:.3f\<close> is kept as the number.
\<close>

datatype retrain_line =
    Loading_new string
  | Loading_existing
  | Model_saved string real real
  | Comparison_header
  | Comparison_rule
  | Comparison_line string real real
  | Best_model string
  | Best_mse real
  | Best_r2 real
  | Registered string
  | Register_warning string
  | Completed
  | Retrain_error string

text \<open>
  The sign of a line: its code point, or \<open>None\<close> for the four lines without a sign (lines
  86, 88, 95 and 96 of the source).
\<close>

fun retrain_sign :: "retrain_line \<Rightarrow> string option" where
  "retrain_sign (Loading_new p) = Some ''U+1F504''"
| "retrain_sign Loading_existing = Some ''U+1F504''"
| "retrain_sign (Model_saved n m r) = Some ''U+2705''"
| "retrain_sign Comparison_header = Some ''U+1F4CA''"
| "retrain_sign Comparison_rule = None"
| "retrain_sign (Comparison_line n m r) = None"
| "retrain_sign (Best_model n) = Some ''U+1F3C6''"
| "retrain_sign (Best_mse m) = None"
| "retrain_sign (Best_r2 r) = None"
| "retrain_sign (Registered v) = Some ''U+2705''"
| "retrain_sign (Register_warning m) = Some ''U+26A0''"
| "retrain_sign Completed = Some ''U+2705''"
| "retrain_sign (Retrain_error m) = Some ''U+274C''"

text \<open>
  The surroundings of one call; \<open>'pd\<close> is the type of pandas objects (frames and
  series).  \<open>stdout_encodes\<close> tells whether the encoding of \<open>sys.stdout\<close> has the signs
  of the lines.  Every other field is an external call of the procedure, with what it
  returns or raises:
  \<^item> \<open>path_exists\<close>: \<open>os.path.exists\<close>;
  \<^item> \<open>read_csv\<close>: \<open>pd.read_csv\<close>;
  \<^item> \<open>drop_target\<close>: \<open>df.drop("MedHouseVal", axis=1)\<close>; \<open>get_target\<close>:
    \<open>df["MedHouseVal"]\<close>;
  \<^item> \<open>train_test_split\<close>: the function of scikit-learn, applied to the features, the
    target, \<open>test_size\<close>, \<open>random_state\<close> (\<open>None\<close> when the caller gives no seed) and
    the state of the global random generator of NumPy, which is \<open>np_random_state\<close> in
    this call; it returns \<open>X_train, X_test, y_train, y_test\<close>;
  \<^item> \<open>makedirs\<close>: \<open>os.makedirs(path, exist_ok=True)\<close>;
  \<^item> \<open>fit_and_log\<close>: lines 46--69 for one estimator and its name, on the four parts of
    the split: the tracking run, \<open>fit\<close>, \<open>predict\<close>, the two scores, the logging
    calls and \<open>joblib.dump\<close>; it returns the scores and the run id;
  \<^item> \<open>register_model\<close>: \<open>mlflow.register_model(model_uri, name)\<close>, which returns the
    version;
  \<^item> \<open>now_isoformat\<close>: \<open>datetime.now().isoformat()\<close> at line 110;
  \<^item> \<open>json_dump\<close>: lines 117--118, opening the file of the given path and writing the
    summary.
\<close>

record 'pd retrain_env =
  stdout_encodes :: bool
  path_exists :: "string \<Rightarrow> bool"
  read_csv :: "string \<Rightarrow> exn + 'pd"
  drop_target :: "'pd \<Rightarrow> exn + 'pd"
  get_target :: "'pd \<Rightarrow> exn + 'pd"
  train_test_split ::
    "'pd \<Rightarrow> 'pd \<Rightarrow> real \<Rightarrow> int option \<Rightarrow> nat \<Rightarrow> exn + ('pd \<times> 'pd \<times> 'pd \<times> 'pd)"
  np_random_state :: nat
  makedirs :: "string \<Rightarrow> exn option"
  fit_and_log :: "estimator \<Rightarrow> string \<Rightarrow> 'pd \<times> 'pd \<times> 'pd \<times> 'pd \<Rightarrow> exn + metrics"
  register_model :: "string \<Rightarrow> string \<Rightarrow> exn + string"
  now_isoformat :: string
  json_dump :: "string \<Rightarrow> retrain_results \<Rightarrow> exn option"

text \<open>
  What a call leaves behind: the lines printed, the paths given to \<open>pd.read_csv\<close>, and
  the summaries given to the write of \<open>../retrain_results.json\<close>.
\<close>

record world =
  printed :: "retrain_line list"
  csv_reads :: "string list"
  dumped :: "retrain_results list"

text \<open>
  \<open>print\<close> of one line: it raises and prints nothing when the line has a sign that the
  standard output does not encode.
\<close>

definition say :: "'pd retrain_env \<Rightarrow> retrain_line \<Rightarrow> world \<Rightarrow> (exn + unit) \<times> world" where
  "say env l w =
     (case print_raises (stdout_encodes env) (retrain_sign l) of
        Some e \<Rightarrow> (Inl e, w)
      | None \<Rightarrow> (Inr (), w\<lparr>printed := printed w @ [l]\<rparr>))"

text \<open>Sequencing of two statements that change the world; an exception skips the second.\<close>

definition bind_w ::
  "(exn + 'a) \<times> world \<Rightarrow> ('a \<Rightarrow> world \<Rightarrow> (exn + 'b) \<times> world) \<Rightarrow> (exn + 'b) \<times> world" where
  "bind_w r f = (case r of (Inl e, w) \<Rightarrow> (Inl e, w) | (Inr x, w) \<Rightarrow> f x w)"

text \<open>
  Lines 24--29.  \<open>new_data_path\<close> is \<open>None\<close> or a string; a string is true when it is
  not empty, and \<open>and\<close> asks \<open>os.path.exists\<close> only then.  In either branch the line
  is printed first, and \<open>pd.read_csv\<close> is called when that \<open>print\<close> has returned.
\<close>

definition truthy :: "string option \<Rightarrow> bool" where
  "truthy new_data_path = (case new_data_path of None \<Rightarrow> False | Some p \<Rightarrow> p \<noteq> [])"

definition load_data :: "'pd retrain_env \<Rightarrow> string option \<Rightarrow> world \<Rightarrow> (exn + 'pd) \<times> world" where
  "load_data env new_data_path w =
     (if truthy new_data_path \<and> path_exists env (the new_data_path)
      then bind_w (say env (Loading_new (the new_data_path)) w) (\<lambda>u w.
             (read_csv env (the new_data_path),
              w\<lparr>csv_reads := csv_reads w @ [the new_data_path]\<rparr>))
      else bind_w (say env Loading_existing w) (\<lambda>u w.
             (read_csv env ''../data/housing.csv'',
              w\<lparr>csv_reads := csv_reads w @ [''../data/housing.csv'']\<rparr>)))"

text \<open>Lines 31--37: features, target, and the split with \<open>test_size=0.2, random_state=42\<close>.\<close>

definition split_data :: "'pd retrain_env \<Rightarrow> 'pd \<Rightarrow> exn + ('pd \<times> 'pd \<times> 'pd \<times> 'pd)" where
  "split_data env df =
     bind_exn (drop_target env df) (\<lambda>X.
     bind_exn (get_target env df) (\<lambda>y.
       train_test_split env X y 0.2 (Some 42) (np_random_state env)))"

text \<open>Lines 31--40: the split, then \<open>os.makedirs("../models", exist_ok=True)\<close>.\<close>

definition prepare :: "'pd retrain_env \<Rightarrow> 'pd \<Rightarrow> exn + ('pd \<times> 'pd \<times> 'pd \<times> 'pd)" where
  "prepare env df =
     bind_exn (split_data env df) (\<lambda>parts.
       case makedirs env ''../models'' of Some e \<Rightarrow> Inl e | None \<Rightarrow> Inr parts)"

text \<open>
  \<open>train_and_log_model\<close> (lines 45--78): after the external steps, the line of line 71
  and the entry of \<open>model_performance\<close>.
\<close>

definition train_and_log_model ::
  "'pd retrain_env \<Rightarrow> estimator \<Rightarrow> string \<Rightarrow> 'pd \<times> 'pd \<times> 'pd \<times> 'pd \<Rightarrow>
   (string \<times> metrics) list \<Rightarrow> world \<Rightarrow> (exn + (string \<times> metrics) list) \<times> world" where
  "train_and_log_model env model model_name parts model_performance w =
     (case fit_and_log env model model_name parts of
        Inl e \<Rightarrow> (Inl e, w)
      | Inr m \<Rightarrow>
          bind_w (say env (Model_saved model_name (mse m) (r2 m)) w) (\<lambda>u w.
            (Inr (dict_set model_name m model_performance), w)))"

text \<open>\<open>d[k]\<close>, which raises \<open>KeyError\<close> for a missing key.\<close>

definition dict_get :: "(string \<times> 'v) list \<Rightarrow> string \<Rightarrow> exn + 'v" where
  "dict_get d k =
     (case map_of d k of None \<Rightarrow> Inl (Exn OtherException (py_repr k)) | Some v \<Rightarrow> Inr v)"

text \<open>
  \<open>min(xs, key=key)\<close>: the first item is the candidate; a later item replaces the
  candidate only when its key is smaller (\<open><\<close>) than the candidate's.  An empty \<open>xs\<close>
  raises \<open>ValueError\<close>.
\<close>

fun min_loop :: "('a \<Rightarrow> exn + real) \<Rightarrow> 'a \<Rightarrow> real \<Rightarrow> 'a list \<Rightarrow> exn + 'a" where
  "min_loop key best best_key [] = Inr best"
| "min_loop key best best_key (x # xs) =
     (case key x of
        Inl e \<Rightarrow> Inl e
      | Inr k \<Rightarrow> if k < best_key then min_loop key x k xs else min_loop key best best_key xs)"

definition py_min :: "('a \<Rightarrow> exn + real) \<Rightarrow> 'a list \<Rightarrow> exn + 'a" where
  "py_min key xs =
     (case xs of
        [] \<Rightarrow> Inl (Exn OtherException ''min() arg is an empty sequence'')
      | x # rest \<Rightarrow> (case key x of Inl e \<Rightarrow> Inl e | Inr k \<Rightarrow> min_loop key x k rest))"

text \<open>The loop of lines 87--88 over the items of \<open>model_performance\<close>.\<close>

fun comparison_loop ::
  "'pd retrain_env \<Rightarrow> (string \<times> metrics) list \<Rightarrow> world \<Rightarrow> (exn + unit) \<times> world" where
  "comparison_loop env [] w = (Inr (), w)"
| "comparison_loop env ((model_name, m) # rest) w =
     bind_w (say env (Comparison_line model_name (mse m) (r2 m)) w) (\<lambda>u w.
       comparison_loop env rest w)"

text \<open>Lines 85--96: the comparison lines, the choice of the best model, its three lines.\<close>

definition select_best ::
  "'pd retrain_env \<Rightarrow> (string \<times> metrics) list \<Rightarrow> world \<Rightarrow>
   (exn + string \<times> metrics) \<times> world" where
  "select_best env model_performance w =
     bind_w (say env Comparison_header w) (\<lambda>u w.
     bind_w (say env Comparison_rule w) (\<lambda>u w.
     bind_w (comparison_loop env model_performance w) (\<lambda>u w.
     bind_w (py_min (\<lambda>x. bind_exn (dict_get model_performance x) (\<lambda>m. Inr (mse m)))
               (map fst model_performance), w) (\<lambda>best_model_name w.
     bind_w (dict_get model_performance best_model_name, w) (\<lambda>best_metrics w.
     bind_w (say env (Best_model best_model_name) w) (\<lambda>u w.
     bind_w (say env (Best_mse (mse best_metrics)) w) (\<lambda>u w.
     bind_w (say env (Best_r2 (r2 best_metrics)) w) (\<lambda>u w.
       (Inr (best_model_name, best_metrics), w)))))))))"

text \<open>
  Lines 99--106: the inner \<open>try\<close> around \<open>mlflow.register_model\<close> and the line about
  the version, with its handler \<open>except Exception as e\<close>, whose \<open>print\<close> is outside the
  \<open>try\<close>.
\<close>

definition register_best :: "'pd retrain_env \<Rightarrow> metrics \<Rightarrow> world \<Rightarrow> (exn + unit) \<times> world" where
  "register_best env best_metrics w =
     (case bind_w (register_model env (''runs:/'' @ run_id best_metrics @ ''/model'')
                     ''HousingPricePredictor'', w)
             (\<lambda>version w. say env (Registered version) w) of
        (Inr u, w') \<Rightarrow> (Inr (), w')
      | (Inl e, w') \<Rightarrow>
          if is_Exception e then say env (Register_warning (exn_str e)) w'
          else (Inl e, w'))"

text \<open>Lines 109--121: the summary, its write, the last line, the return.\<close>

definition save_results ::
  "'pd retrain_env \<Rightarrow> string option \<Rightarrow> string \<Rightarrow> metrics \<Rightarrow> (string \<times> metrics) list \<Rightarrow> world \<Rightarrow>
   (exn + retrain_results) \<times> world" where
  "save_results env new_data_path best_model_name best_metrics model_performance w =
     (let retrain_results =
            \<lparr>retrain_timestamp = now_isoformat env,
             best_model = best_model_name,
             performance = best_metrics,
             all_models = model_performance,
             data_source = (if truthy new_data_path then the new_data_path
                            else ''existing_data'')\<rparr>;
          w1 = w\<lparr>dumped := dumped w @ [retrain_results]\<rparr>
      in case json_dump env ''../retrain_results.json'' retrain_results of
           Some e \<Rightarrow> (Inl e, w1)
         | None \<Rightarrow> bind_w (say env Completed w1) (\<lambda>u w. (Inr retrain_results, w)))"

text \<open>
  Lines 23--96: loading, splitting, training the two candidates in their order, and the
  choice of the best; the result is \<open>model_performance\<close>, \<open>best_model_name\<close> and
  \<open>best_metrics\<close>.
\<close>

definition train_and_select ::
  "'pd retrain_env \<Rightarrow> string option \<Rightarrow> world \<Rightarrow>
   (exn + (string \<times> metrics) list \<times> string \<times> metrics) \<times> world" where
  "train_and_select env new_data_path w0 =
     bind_w (load_data env new_data_path w0) (\<lambda>df w.
     bind_w (prepare env df, w) (\<lambda>parts w.
     bind_w (train_and_log_model env LinearRegression ''LinearRegression'' parts [] w)
       (\<lambda>model_performance w.
     bind_w (train_and_log_model env (DecisionTreeRegressor 5) ''DecisionTree'' parts
               model_performance w)
       (\<lambda>model_performance w.
     bind_w (select_best env model_performance w) (\<lambda>(best_model_name, best_metrics) w.
       (Inr (model_performance, best_model_name, best_metrics), w))))))"

text \<open>The body of the outer \<open>try\<close> (lines 23--121).\<close>

definition retrain_body ::
  "'pd retrain_env \<Rightarrow> string option \<Rightarrow> world \<Rightarrow> (exn + retrain_results) \<times> world" where
  "retrain_body env new_data_path w0 =
     bind_w (train_and_select env new_data_path w0)
       (\<lambda>(model_performance, best_model_name, best_metrics) w.
     bind_w (register_best env best_metrics w) (\<lambda>u w.
       save_results env new_data_path best_model_name best_metrics model_performance w))"

text \<open>
  \<open>retrain_housing_model\<close>: the body under the handler \<open>except Exception as e\<close> of
  lines 123--125.  The \<open>print\<close> of the handler is outside the \<open>try\<close>: an exception
  that it raises leaves the function.
\<close>

definition retrain_housing_model ::
  "'pd retrain_env \<Rightarrow> string option \<Rightarrow> world \<Rightarrow> outcome \<times> world" where
  "retrain_housing_model env new_data_path w0 =
     (case retrain_body env new_data_path w0 of
        (Inr retrain_results, w) \<Rightarrow> (Returns (Results retrain_results), w)
      | (Inl e, w) \<Rightarrow>
          if is_Exception e
          then (case say env (Retrain_error (exn_str e)) w of
                  (Inl e', w') \<Rightarrow> (Raises e', w')
                | (Inr u, w') \<Rightarrow> (Returns (Error_dict (exn_str e)), w'))
          else (Raises e, w))"


text \<open>
  An example: the standard output encodes the signs, the dataset is a list of rows, the
  split puts the last fifth of the rows in the test part (with a seed it does not look at
  the global generator), linear regression scores an MSE of 0.5 and the tree 0.7, and
  every other step succeeds.
\<close>

definition example_split ::
  "nat list \<Rightarrow> nat list \<Rightarrow> real \<Rightarrow> int option \<Rightarrow> nat \<Rightarrow>
   exn + (nat list \<times> nat list \<times> nat list \<times> nat list)" where
  "example_split X y t s g =
     (let k = (case s of None \<Rightarrow> g mod 2 | Some seed \<Rightarrow> 0) + length X - length X div 5
      in Inr (take k X, drop k X, take k y, drop k y))"

definition example_retrain_env :: "nat list retrain_env" where
  "example_retrain_env =
     \<lparr>stdout_encodes = True,
      path_exists = (\<lambda>p. p = ''../data/new.csv''),
      read_csv = (\<lambda>p. Inr (if p = ''../data/new.csv'' then [1, 2, 3, 4, 5] else [6, 7, 8, 9, 10])),
      drop_target = (\<lambda>df. Inr df),
      get_target = (\<lambda>df. Inr (map (\<lambda>x. 2 * x) df)),
      train_test_split = example_split,
      np_random_state = 0,
      makedirs = (\<lambda>p. None),
      fit_and_log = (\<lambda>model n parts.
        Inr (case model of
               LinearRegression \<Rightarrow> \<lparr>mse = 0.5, r2 = 0.6, run_id = ''run1''\<rparr>
             | DecisionTreeRegressor d \<Rightarrow> \<lparr>mse = 0.7, r2 = 0.4, run_id = ''run2''\<rparr>)),
      register_model = (\<lambda>uri name. Inr ''1''),
      now_isoformat = ''2024-01-01T00:00:00'',
      json_dump = (\<lambda>p r. None)\<rparr>"

definition empty_world :: world where
  "empty_world = \<lparr>printed = [], csv_reads = [], dumped = []\<rparr>"



definition interrupted_register_env :: "nat list retrain_env" where
  "interrupted_register_env =
     example_retrain_env
       \<lparr>register_model := (\<lambda>u n. Inl (Exn NonException ''KeyboardInterrupt''))\<rparr>"

text \<open>
  The summary of the example for a given \<open>data_source\<close>, and the example with the same
  MSE for both candidates.
\<close>

definition example_results :: "string \<Rightarrow> retrain_results" where
  "example_results src =
     \<lparr>retrain_timestamp = ''2024-01-01T00:00:00'',
      best_model = ''LinearRegression'',
      performance = \<lparr>mse = 0.5, r2 = 0.6, run_id = ''run1''\<rparr>,
      all_models =
        [(''LinearRegression'', \<lparr>mse = 0.5, r2 = 0.6, run_id = ''run1''\<rparr>),
         (''DecisionTree'', \<lparr>mse = 0.7, r2 = 0.4, run_id = ''run2''\<rparr>)],
      data_source = src\<rparr>"


text \<open>
  Two more variations: the registry rejects the registration; and the standard output
  does not encode the signs.
\<close>

definition rejected_register_env :: "nat list retrain_env" where
  "rejected_register_env =
     example_retrain_env
       \<lparr>register_model := (\<lambda>u n. Inl (Exn OtherException ''already registered''))\<rparr>"


section \<open>Properties of the troubleshooter\<close>

subsection \<open>Substrings and delimiters\<close>

lemma prefix_no_delim:
  assumes "d \<notin> set k" "prefix k (d # ys)"
  shows "k = []"
  using assms by (cases k) auto

lemma sublist_split_at:
  assumes "d \<notin> set k"
  shows "sublist k (xs @ d # ys) \<longleftrightarrow> sublist k xs \<or> sublist k ys"
proof
  assume "sublist k (xs @ d # ys)"
  then consider "sublist k xs" | "sublist k (d # ys)"
    | k1 k2 where "k = k1 @ k2" "suffix k1 xs" "prefix k2 (d # ys)"
    by (auto simp: sublist_append)
  then show "sublist k xs \<or> sublist k ys"
  proof cases
    case 1
    then show ?thesis by simp
  next
    case 2
    then have "prefix k (d # ys) \<or> sublist k ys" by (simp add: sublist_Cons_right)
    with assms show ?thesis by (auto dest: prefix_no_delim)
  next
    case 3
    from 3(1) assms have "d \<notin> set k2" by simp
    then have "k2 = []" using 3(3) by (rule prefix_no_delim)
    with 3(1,2) show ?thesis by auto
  qed
next
  assume "sublist k xs \<or> sublist k ys"
  then show "sublist k (xs @ d # ys)"
    by (auto simp: sublist_append sublist_Cons_right)
qed

lemma sublist_quoted:
  assumes "q \<notin> set k" "k \<noteq> []"
  shows "sublist k (q # b @ q # rest) \<longleftrightarrow> sublist k b \<or> sublist k rest"
proof -
  have "sublist k ([] @ q # (b @ q # rest)) \<longleftrightarrow> sublist k [] \<or> sublist k (b @ q # rest)"
    using assms(1) by (rule sublist_split_at)
  then show ?thesis
    using assms by (simp add: sublist_split_at)
qed

lemma py_repr_plain:
  assumes "plain s"
  shows "py_repr s = CHR 0x27 # s @ [CHR 0x27]"
proof -
  have "concat (map (repr_char (CHR 0x27)) s) = s"
    using assms unfolding plain_def by (induction s) auto
  with assms show ?thesis by (simp add: py_repr_def plain_def Let_def)
qed

lemma sublist_join_repr:
  assumes "CHR 0x27 \<notin> set k" "CHR '','' \<notin> set k" "2 \<le> length k" "\<forall>x \<in> set xs. plain x"
    and "sublist k (join '', '' (map py_repr xs))"
  shows "\<exists>x \<in> set xs. sublist k x"
  using assms(4,5)
proof (induction xs rule: induct_list012)
  case 1
  with assms(3) show ?case by simp
next
  case (2 x)
  from assms(3) have ne: "k \<noteq> []" by auto
  from 2 have "sublist k (CHR 0x27 # x @ CHR 0x27 # [])" by (simp add: py_repr_plain)
  then have "sublist k x \<or> sublist k []" by (simp only: sublist_quoted[OF assms(1) ne])
  with ne show ?case by simp
next
  case (3 x y zs)
  from assms(3) have ne: "k \<noteq> []" by auto
  let ?R = "join '', '' (map py_repr (y # zs))"
  from 3(3) have px: "plain x" and py: "plain y" by simp_all
  obtain R' where R: "?R = CHR 0x27 # R'"
    using py by (cases zs) (simp_all add: py_repr_plain)
  from 3(4) px have "sublist k (CHR 0x27 # x @ CHR 0x27 # (CHR '','' # CHR '' '' # ?R))"
    by (simp add: py_repr_plain)
  then have "sublist k x \<or> sublist k (CHR '','' # CHR '' '' # ?R)"
    by (simp only: sublist_quoted[OF assms(1) ne])
  then show ?case
  proof
    assume "sublist k x"
    then show ?thesis by auto
  next
    assume "sublist k (CHR '','' # CHR '' '' # ?R)"
    then have "sublist k ([] @ CHR '','' # (CHR '' '' # ?R))" by simp
    then have "sublist k [] \<or> sublist k (CHR '' '' # ?R)"
      by (simp only: sublist_split_at[OF assms(2)])
    with ne have "sublist k (CHR '' '' # ?R)" by simp
    then have "sublist k ([CHR '' ''] @ CHR 0x27 # R')" unfolding R by simp
    then have "sublist k [CHR '' ''] \<or> sublist k R'"
      by (simp only: sublist_split_at[OF assms(1)])
    moreover have "\<not> sublist k [CHR '' '']"
      using assms(3) by (auto dest: sublist_length_le)
    ultimately have "sublist k ?R" unfolding R by (simp add: sublist_Cons_right)
    with 3(2,3) show ?thesis by auto
  qed
qed

lemma py_in_str_list:
  assumes "CHR 0x27 \<notin> set k" "CHR '','' \<notin> set k" "CHR ''['' \<notin> set k" "CHR '']'' \<notin> set k"
    and "2 \<le> length k" "\<forall>x \<in> set xs. plain x"
    and "py_in k (py_str_list xs)"
  shows "\<exists>x \<in> set xs. py_in k x"
proof -
  from assms(5) have ne: "k \<noteq> []" by auto
  let ?J = "join '', '' (map py_repr xs)"
  from assms(7) have "sublist k ([] @ CHR ''['' # (?J @ CHR '']'' # []))"
    by (simp add: py_in_def py_str_list_def)
  then have "sublist k [] \<or> sublist k (?J @ CHR '']'' # [])"
    by (simp only: sublist_split_at[OF assms(3)])
  with ne have "sublist k (?J @ CHR '']'' # [])" by simp
  then have "sublist k ?J \<or> sublist k []"
    by (simp only: sublist_split_at[OF assms(4)])
  with ne have "sublist k ?J" by simp
  with assms(1,2,5,6) show ?thesis
    unfolding py_in_def by (rule sublist_join_repr)
qed

subsection \<open>The issue strings of the port and health checks\<close>

lemma keys_dict_set: "fst ` set (dict_set k v d) = insert k (fst ` set d)"
proof (induction d)
  case Nil
  show ?case by simp
next
  case (Cons p d)
  obtain k' v' where p: "p = (k', v')" by (cases p)
  show ?case
  proof (cases "k' = k")
    case True
    then show ?thesis by (simp add: p)
  next
    case False
    then show ?thesis by (simp add: p Cons.IH insert_commute)
  qed
qed

lemma port_issues_subset:
  assumes "port_issues ps acc = Inr r"
  shows "set r \<subseteq> set acc \<union>
           (\<lambda>(s, info). ''Port '' @ str_nat (port info) @ '' not accessible'') ` set services"
  using assms
proof (induction ps arbitrary: acc)
  case Nil
  then show ?case by auto
next
  case (Cons p ps)
  obtain service available where p: "p = (service, available)" by (cases p)
  from Cons.prems obtain info where info: "map_of services service = Some info"
    by (auto simp: p split: option.splits)
  then have mem: "(service, info) \<in> set services" by (rule map_of_SomeD)
  let ?acc' = "if available then acc else acc @ [''Port '' @ str_nat (port info) @ '' not accessible'']"
  from Cons.prems have "port_issues ps ?acc' = Inr r" by (simp add: p info)
  then have "set r \<subseteq> set ?acc' \<union>
      (\<lambda>(s, info). ''Port '' @ str_nat (port info) @ '' not accessible'') ` set services"
    by (rule Cons.IH)
  moreover have "set ?acc' \<subseteq> set acc \<union>
      (\<lambda>(s, info). ''Port '' @ str_nat (port info) @ '' not accessible'') ` set services"
  proof (cases available)
    case True
    then show ?thesis by simp
  next
    case False
    have "''Port '' @ str_nat (port info) @ '' not accessible'' \<in>
        (\<lambda>(s, info). ''Port '' @ str_nat (port info) @ '' not accessible'') ` set services"
      using mem by (rule image_eqI[rotated]) simp
    with False show ?thesis by simp
  qed
  ultimately show ?case by blast
qed

lemma health_loop_keys:
  assumes "health_loop env svcs acc = Inr hs"
  shows "fst ` set hs \<subseteq> fst ` set acc \<union> fst ` set svcs"
  using assms
proof (induction svcs arbitrary: acc)
  case Nil
  then show ?case by auto
next
  case (Cons p svcs)
  obtain service info where p: "p = (service, info)" by (cases p)
  from Cons.prems obtain h where "health_loop env svcs (dict_set service h acc) = Inr hs"
    by (auto simp: p split: sum.splits if_splits)
  then have "fst ` set hs \<subseteq> fst ` set (dict_set service h acc) \<union> fst ` set svcs"
    by (rule Cons.IH)
  then show ?case by (auto simp: keys_dict_set p)
qed

lemma health_issues_subset:
  "set (health_issues hs acc) \<subseteq>
     set acc \<union> (\<lambda>s. ''Service '' @ s @ '' unhealthy'') ` fst ` set hs"
proof (induction hs arbitrary: acc)
  case Nil
  then show ?case by simp
next
  case (Cons p hs)
  obtain service h where p: "p = (service, h)" by (cases p)
  show ?case
    using Cons.IH[of "if healthy h then acc else acc @ [''Service '' @ service @ '' unhealthy'']"]
    by (auto simp: p split: if_splits)
qed

lemma container_issues_running:
  assumes "\<forall>(name, st) \<in> set cs. running st"
  shows "container_issues cs acc = acc"
  using assms by (induction cs arbitrary: acc) auto

lemma metrics_issues_available:
  assumes "\<forall>(service, available) \<in> set ms. available"
  shows "metrics_issues ms acc = acc"
  using assms by (induction ms arbitrary: acc) auto

lemma issue_strings_eq:
  "issue_strings =
     [''Port 3000 not accessible'', ''Port 9090 not accessible'',
      ''Port 8000 not accessible'', ''Port 8001 not accessible'',
      ''Port 8002 not accessible'', ''Port 5000 not accessible'',
      ''Service grafana unhealthy'', ''Service prometheus unhealthy'',
      ''Service housing-api unhealthy'', ''Service iris-api unhealthy'',
      ''Service retraining unhealthy'', ''Service mlflow unhealthy'']"
  by (simp add: issue_strings_def services_def str_nat.simps digit_char_def)

lemma issue_strings_plain: "\<forall>i \<in> set issue_strings. plain i"
  unfolding issue_strings_eq by code_simp

lemma issue_strings_no_key:
  "\<forall>i \<in> set issue_strings.
     \<not> py_in ''Docker is not running'' i \<and>
     \<not> py_in ''docker-compose.monitoring.yml not found'' i \<and>
     \<not> py_in ''containers not running'' i \<and>
     \<not> py_in ''port conflicts'' i \<and>
     \<not> py_in ''services not healthy'' i \<and>
     \<not> py_in ''no metrics'' i"
  unfolding issue_strings_eq by code_simp

lemma no_key_in_issue_strings:
  assumes "set xs \<subseteq> set issue_strings"
    and "CHR 0x27 \<notin> set k" "CHR '','' \<notin> set k" "CHR ''['' \<notin> set k" "CHR '']'' \<notin> set k"
    and "2 \<le> length k"
    and "\<forall>i \<in> set issue_strings. \<not> py_in k i"
  shows "\<not> py_in k (py_str_list xs)"
proof
  assume "py_in k (py_str_list xs)"
  moreover have "\<forall>x \<in> set xs. plain x" using assms(1) issue_strings_plain by blast
  ultimately obtain x where "x \<in> set xs" "py_in k x"
    using py_in_str_list[OF assms(2-6)] by blast
  with assms(1,7) show False by blast
qed

lemma suggest_fixes_issue_strings:
  assumes "set xs \<subseteq> set issue_strings"
  shows "suggest_fixes xs = []"
proof -
  note nk = no_key_in_issue_strings[OF assms]
  have 1: "\<not> py_in ''Docker is not running'' (py_str_list xs)"
    using issue_strings_no_key by (intro nk) simp_all
  have 2: "\<not> py_in ''docker-compose.monitoring.yml not found'' (py_str_list xs)"
    using issue_strings_no_key by (intro nk) simp_all
  have 3: "\<not> py_in ''containers not running'' (py_str_list xs)"
    using issue_strings_no_key by (intro nk) simp_all
  have 4: "\<not> py_in ''port conflicts'' (py_str_list xs)"
    using issue_strings_no_key by (intro nk) simp_all
  have 5: "\<not> py_in ''services not healthy'' (py_str_list xs)"
    using issue_strings_no_key by (intro nk) simp_all
  have 6: "\<not> py_in ''no metrics'' (py_str_list xs)"
    using issue_strings_no_key by (intro nk) simp_all
  show ?thesis
    unfolding suggest_fixes_def using 1 2 3 4 5 6 by simp
qed

text \<open>
  C10.  In a diagnostic run where the Docker check, the compose-file check, the container
  check and the metrics check all pass, so that only port checks and health checks can
  fail, every issue is one of the strings \<open>Port <port> not accessible\<close> and
  \<open>Service <service> unhealthy\<close> of the table; neither \<open>port conflicts\<close> nor
  \<open>services not healthy\<close> occurs in \<open>str(issues)\<close>, and \<open>suggest_fixes\<close> gives no hint.
\<close>

theorem port_and_health_failures_get_no_hints:
  assumes run: "run_diagnostics env = Inr r"
    and docker: "check_docker_status env = Inr (True, docker_msg)"
    and compose: "check_compose_file env = Inr (True, compose_msg)"
    and containers: "check_container_status env = Inr cs" "cs \<noteq> []"
      "\<forall>(name, st) \<in> set cs. running st"
    and metrics: "\<forall>(service, available) \<in> set (check_metrics_availability env). available"
  shows "set (issues r) \<subseteq> set issue_strings \<and>
         \<not> py_in ''port conflicts'' (py_str_list (issues r)) \<and>
         \<not> py_in ''services not healthy'' (py_str_list (issues r)) \<and>
         suggest_fixes (issues r) = [] \<and> suggested r = []"
proof -
  have c0: "container_issues cs [] = []"
    using containers(3) by (rule container_issues_running)
  from run docker compose containers(1,2) c0
  obtain ps i3 hs where ps: "check_port_availability env = Inr ps"
    and i3: "port_issues ps [] = Inr i3"
    and hs: "check_service_health env = Inr hs"
    and r: "issues r = metrics_issues (check_metrics_availability env) (health_issues hs i3)"
      "suggested r = (if issues r \<noteq> [] then suggest_fixes (issues r) else [])"
    by (auto simp: run_diagnostics_def bind_exn_def Let_def split: sum.splits)
  have r1: "issues r = health_issues hs i3"
    using r(1) metrics by (simp add: metrics_issues_available)
  from i3 have p: "set i3 \<subseteq> set issue_strings"
    using port_issues_subset[of ps "[]" i3] by (auto simp: issue_strings_def)
  from hs have "fst ` set hs \<subseteq> fst ` set services"
    using health_loop_keys[of env services "[]" hs] by (simp add: check_service_health_def)
  then have "(\<lambda>s. ''Service '' @ s @ '' unhealthy'') ` fst ` set hs \<subseteq> set issue_strings"
    by (auto simp: issue_strings_def)
  with p have sub: "set (issues r) \<subseteq> set issue_strings"
    unfolding r1 using health_issues_subset[of hs i3] by blast
  note nk = no_key_in_issue_strings[OF sub]
  have 4: "\<not> py_in ''port conflicts'' (py_str_list (issues r))"
    using issue_strings_no_key by (intro nk) simp_all
  have 5: "\<not> py_in ''services not healthy'' (py_str_list (issues r))"
    using issue_strings_no_key by (intro nk) simp_all
  have 6: "suggest_fixes (issues r) = []"
    using sub by (rule suggest_fixes_issue_strings)
  from sub 4 5 6 r(2) show ?thesis by simp
qed

subsection \<open>The example run\<close>

lemma example_docker: "check_docker_status example_env = Inr (True, ''Docker is running'')"
  by (simp add: check_docker_status_def example_env_def)

lemma example_compose:
  "check_compose_file example_env = Inr (True, ''Docker compose file is valid'')"
  by (simp add: check_compose_file_def example_env_def)

lemma example_lines:
  "drop 2 (py_split (CHR 0x0A) (py_strip (stdout example_ps))) =
     [''grafana grafana/grafana /run.sh Exit'', ''prometheus Up'',
      ''mlflow  mlflow:latest  server  Up'', ''grafana grafana/grafana /run.sh Up'']"
  by (simp add: example_ps_def py_strip_def isspace_def)

lemma example_containers:
  "check_container_status example_env =
     Inr [(''grafana'', \<lparr>status = ''Up'', running = True\<rparr>),
          (''mlflow'', \<lparr>status = ''Up'', running = True\<rparr>)]"
  by (simp add: check_container_status_def example_env_def example_ps_def py_strip_def
      isspace_def py_split_ws_def py_in_def sublist_Cons_right Let_def)

lemma example_metrics:
  "check_metrics_availability example_env =
     [(''prometheus'', True), (''housing-api'', True), (''iris-api'', True)]"
  by (simp add: check_metrics_availability_def api_metrics_def metrics_answer_def
      example_env_def services_def str_nat.simps digit_char_def)

lemma example_ports:
  "check_port_availability example_env =
     Inr [(''grafana'', False), (''prometheus'', True), (''housing-api'', True),
          (''iris-api'', True), (''retraining'', True), (''mlflow'', True)]"
  by (simp add: check_port_availability_def example_env_def services_def)

lemma example_health:
  "check_service_health example_env =
     Inr [(''grafana'', Health_error ''refused''), (''prometheus'', Health_response True 200),
          (''housing-api'', Health_response True 200), (''iris-api'', Health_response True 200),
          (''retraining'', Health_response True 200), (''mlflow'', Health_response True 200)]"
  by (simp add: check_service_health_def example_env_def services_def health_url_def
      is_RequestException_def)

lemma example_run:
  "run_diagnostics example_env =
     Inr \<lparr>issues = [''Port 3000 not accessible'', ''Service grafana unhealthy''],
          suggested = suggest_fixes [''Port 3000 not accessible'', ''Service grafana unhealthy''],
          all_good = False\<rparr>"
  by (simp add: run_diagnostics_def bind_exn_def example_docker example_compose
      example_containers example_metrics example_ports example_health services_def
      str_nat.simps digit_char_def Let_def)

theorem port_and_health_failures_get_no_hints_witness:
  "run_diagnostics example_env =
     Inr \<lparr>issues = [''Port 3000 not accessible'', ''Service grafana unhealthy''],
          suggested = [], all_good = False\<rparr> \<and>
   \<not> py_in ''port conflicts''
       (py_str_list [''Port 3000 not accessible'', ''Service grafana unhealthy'']) \<and>
   \<not> py_in ''services not healthy''
       (py_str_list [''Port 3000 not accessible'', ''Service grafana unhealthy''])"
proof -
  have m: "\<forall>(service, available) \<in> set (check_metrics_availability example_env). available"
    by (simp add: example_metrics)
  have c: "[(''grafana'', \<lparr>status = ''Up'', running = True\<rparr>),
            (''mlflow'', \<lparr>status = ''Up'', running = True\<rparr>)] \<noteq> []"
    "\<forall>(name, st) \<in> set [(''grafana'', \<lparr>status = ''Up'', running = True\<rparr>),
            (''mlflow'', \<lparr>status = ''Up'', running = True\<rparr>)]. running st"
    by simp_all
  from port_and_health_failures_get_no_hints
    [OF example_run example_docker example_compose example_containers c m]
  show ?thesis by (simp add: example_run)
qed

subsection \<open>Parsing the container list\<close>

lemma map_of_dict_set: "map_of (dict_set k v d) = (map_of d)(k \<mapsto> v)"
proof (induction d)
  case Nil
  show ?case by simp
next
  case (Cons p d)
  obtain k' v' where p: "p = (k', v')" by (cases p)
  show ?case by (auto simp: p Cons.IH)
qed

lemma distinct_dict_set:
  assumes "distinct (map fst d)"
  shows "distinct (map fst (dict_set k v d))"
  using assms
proof (induction d)
  case Nil
  show ?case by simp
next
  case (Cons p d)
  obtain k' v' where p: "p = (k', v')" by (cases p)
  have "k' \<notin> fst ` set (dict_set k v d)" if "k' \<noteq> k"
    using Cons.prems that by (simp add: keys_dict_set p)
  with Cons show ?case by (auto simp: p)
qed

lemma split_ws_from_blank:
  assumes "\<forall>c \<in> set s. isspace c"
  shows "split_ws_from cur s = (if cur = [] then [] else [cur])"
  using assms by (induction s arbitrary: cur) auto

lemma py_strip_blank:
  assumes "py_strip s = []"
  shows "\<forall>c \<in> set s. isspace c"
proof -
  from assms have "dropWhile isspace (rev (dropWhile isspace s)) = []"
    by (simp add: py_strip_def)
  then have "\<forall>c \<in> set (dropWhile isspace s). isspace c"
    by (simp add: dropWhile_eq_Nil_conv)
  moreover have "dropWhile isspace s = [] \<or> \<not> isspace (hd (dropWhile isspace s))"
    using hd_dropWhile[of isspace s] by blast
  ultimately have "dropWhile isspace s = []"
    by (cases "dropWhile isspace s") auto
  then show ?thesis by (simp add: dropWhile_eq_Nil_conv)
qed

lemma blank_line_no_fields:
  assumes "py_strip line = []"
  shows "py_split_ws line = []"
  using split_ws_from_blank[OF py_strip_blank[OF assms], of "[]"] by (simp add: py_split_ws_def)

lemma parse_lines_step:
  "parse_lines (line # lines) d =
     parse_lines lines
       (if 4 \<le> length (py_split_ws line)
        then dict_set (hd (py_split_ws line))
               \<lparr>status = last (py_split_ws line),
                running = py_in ''Up'' (last (py_split_ws line))\<rparr> d
        else d)"
  using blank_line_no_fields[of line] by (auto simp: Let_def)

lemma parse_lines_distinct:
  assumes "distinct (map fst d)"
  shows "distinct (map fst (parse_lines lines d))"
  using assms
proof (induction lines arbitrary: d)
  case Nil
  then show ?case by simp
next
  case (Cons line lines)
  show ?case
    unfolding parse_lines_step using Cons.prems by (intro Cons.IH) (simp add: distinct_dict_set)
qed

lemma find_snoc:
  "find P (xs @ [y]) = (case find P xs of None \<Rightarrow> (if P y then Some y else None) | Some x \<Rightarrow> Some x)"
  by (induction xs) auto

lemma parse_lines_map_of:
  "map_of (parse_lines lines d) name =
     (case find (\<lambda>line. 4 \<le> length (py_split_ws line) \<and> hd (py_split_ws line) = name)
             (rev lines) of
        None \<Rightarrow> map_of d name
      | Some line \<Rightarrow>
          Some \<lparr>status = last (py_split_ws line),
                running = py_in ''Up'' (last (py_split_ws line))\<rparr>)"
proof (induction lines arbitrary: d)
  case Nil
  show ?case by simp
next
  case (Cons line lines)
  show ?case
    unfolding parse_lines_step Cons.IH
    by (auto simp: find_snoc map_of_dict_set split: option.splits)
qed

text \<open>
  C8, as the source has it.  When \<open>ps\<close> exits with code 0, the returned dict has one
  entry per name: it sends a name to the state (the last field, with \<open>running\<close> true iff
  the state contains \<open>Up\<close>) of the last line, after the two header lines, that has at
  least four whitespace-delimited fields and that name as its first field, and it has no
  entry for a name without such a line.  A line with fewer than four fields adds nothing.
\<close>

theorem check_container_status_entries:
  assumes "run_compose_ps env = Inr result" and "returncode result = 0"
  shows "\<exists>d. check_container_status env = Inr d \<and> distinct (map fst d) \<and>
           (\<forall>name. map_of d name =
              map_option
                (\<lambda>line. \<lparr>status = last (py_split_ws line),
                          running = py_in ''Up'' (last (py_split_ws line))\<rparr>)
                (find (\<lambda>line. 4 \<le> length (py_split_ws line) \<and> hd (py_split_ws line) = name)
                   (rev (drop 2 (py_split (CHR 0x0A) (py_strip (stdout result)))))))"
proof -
  let ?lines = "drop 2 (py_split (CHR 0x0A) (py_strip (stdout result)))"
  have 1: "check_container_status env = Inr (parse_lines ?lines [])"
    using assms by (simp add: check_container_status_def)
  have 2: "distinct (map fst (parse_lines ?lines []))"
    by (rule parse_lines_distinct) simp
  have 3: "map_of (parse_lines ?lines []) name =
      map_option
        (\<lambda>line. \<lparr>status = last (py_split_ws line),
                  running = py_in ''Up'' (last (py_split_ws line))\<rparr>)
        (find (\<lambda>line. 4 \<le> length (py_split_ws line) \<and> hd (py_split_ws line) = name)
           (rev ?lines))" for name
    unfolding parse_lines_map_of by (simp split: option.splits)
  from 1 2 3 show ?thesis by blast
qed

theorem check_container_status_entries_witness:
  "check_container_status example_env =
     Inr [(''grafana'', \<lparr>status = ''Up'', running = True\<rparr>),
          (''mlflow'', \<lparr>status = ''Up'', running = True\<rparr>)] \<and>
   find (\<lambda>line. 4 \<le> length (py_split_ws line) \<and> hd (py_split_ws line) = ''grafana'')
     (rev (drop 2 (py_split (CHR 0x0A) (py_strip (stdout example_ps))))) =
     Some ''grafana grafana/grafana /run.sh Up'' \<and>
   find (\<lambda>line. 4 \<le> length (py_split_ws line) \<and> hd (py_split_ws line) = ''prometheus'')
     (rev (drop 2 (py_split (CHR 0x0A) (py_strip (stdout example_ps))))) = None"
proof -
  have r: "run_compose_ps example_env = Inr example_ps" "returncode example_ps = 0"
    by (simp_all add: example_env_def example_ps_def)
  from check_container_status_entries[OF r] obtain d
    where d: "check_container_status example_env = Inr d"
      and m: "\<And>name. map_of d name =
        map_option
          (\<lambda>line. \<lparr>status = last (py_split_ws line),
                    running = py_in ''Up'' (last (py_split_ws line))\<rparr>)
          (find (\<lambda>line. 4 \<le> length (py_split_ws line) \<and> hd (py_split_ws line) = name)
             (rev (drop 2 (py_split (CHR 0x0A) (py_strip (stdout example_ps))))))"
    by blast
  from d have d': "d = [(''grafana'', \<lparr>status = ''Up'', running = True\<rparr>),
          (''mlflow'', \<lparr>status = ''Up'', running = True\<rparr>)]"
    by (simp add: example_containers)
  have g: "find (\<lambda>line. 4 \<le> length (py_split_ws line) \<and> hd (py_split_ws line) = ''grafana'')
     (rev (drop 2 (py_split (CHR 0x0A) (py_strip (stdout example_ps))))) =
     Some ''grafana grafana/grafana /run.sh Up''"
    unfolding example_lines by (simp add: py_split_ws_def isspace_def)
  have "map_of d ''prometheus'' = None" by (simp add: d')
  then have p: "find (\<lambda>line. 4 \<le> length (py_split_ws line) \<and> hd (py_split_ws line) = ''prometheus'')
     (rev (drop 2 (py_split (CHR 0x0A) (py_strip (stdout example_ps))))) = None"
    unfolding m by simp
  from g p show ?thesis by (simp add: example_containers)
qed

text \<open>
  The sentence of C8 that every non-blank line yields an entry fails on a line with a name
  and a state only: the line is not blank, its first field is \<open>prometheus\<close> and its last
  field \<open>Up\<close>, and the returned dict is empty.
\<close>

theorem two_field_line_gives_no_entry:
  "drop 2 (py_split (CHR 0x0A)
      (py_strip (''NAME STATE'' @ [CHR 0x0A] @ ''----------'' @ [CHR 0x0A] @
                 ''prometheus Up'' @ [CHR 0x0A]))) = [''prometheus Up''] \<and>
   py_strip ''prometheus Up'' \<noteq> [] \<and>
   py_split_ws ''prometheus Up'' = [''prometheus'', ''Up''] \<and>
   check_container_status two_field_env = Inr []"
  by (simp add: check_container_status_def two_field_env_def example_env_def py_strip_def
      isspace_def py_split_ws_def Let_def)

section \<open>Properties of the smoke test\<close>

lemma print_line_encodes [simp]: "print_line True l = (None, [l])"
  by (simp add: print_line_def print_raises_def split: option.splits)

lemma print_line_sign:
  "smoke_sign l = Some c \<Longrightarrow> print_line False l = (Some (encode_error c), [])"
  by (simp add: print_line_def print_raises_def)

lemma and_then_None [simp]: "and_then (None, out) b = (fst b, out @ snd b)"
  by (simp add: and_then_def split: prod.splits)

lemma and_then_Some [simp]: "and_then (Some e, out) b = (Some e, out)"
  by (simp add: and_then_def)

lemma is_Exception_encode_error [simp]: "is_Exception (encode_error c)"
  by (simp add: encode_error_def is_Exception_def)

lemma not_ConnectionError_encode_error [simp]: "\<not> is_ConnectionError (encode_error c)"
  by (simp add: encode_error_def is_ConnectionError_def)

lemma exn_str_encode_error [simp]: "exn_str (encode_error c) = ''UnicodeEncodeError: '' @ c"
  by (simp add: encode_error_def)

subsection \<open>A standard output that encodes the signs\<close>













subsection \<open>A standard output that does not encode the signs\<close>

text \<open>
  The header of \<open>test_api_endpoints\<close> is printed outside every \<open>try\<close>, so the check ends
  there with the \<open>UnicodeEncodeError\<close>, before any request.
\<close>

lemma endpoints_not_encoded:
  "test_api_endpoints False get = (Some (encode_error ''U+1F50D''), [])"
  by (simp add: test_api_endpoints_def print_line_sign)

text \<open>
  In \<open>test_prediction_endpoint\<close> every path prints a line with a sign, first or in a
  handler.  The exception of that \<open>print\<close> is caught when it is raised in the \<open>try\<close>, and
  then the \<open>print\<close> of the handler raises: the check propagates the
  \<open>UnicodeEncodeError\<close> of a handler.
\<close>

lemma prediction_try_not_encoded:
  assumes "\<forall>u e. post u = Inl e \<longrightarrow> is_Exception e"
    and "\<forall>u r e. post u = Inr r \<longrightarrow> resp_json r = Inl e \<longrightarrow> is_Exception e"
  shows "\<exists>e. prediction_try False post = (Some e, []) \<and> is_Exception e"
proof (cases "post (base_url @ ''/predict'')")
  case (Inl e)
  with assms(1) show ?thesis by (auto simp: prediction_try_def)
next
  case (Inr r)
  show ?thesis
  proof (cases "status_code r = 200")
    case True
    with Inr assms(2) show ?thesis
      by (cases "resp_json r") (auto simp: prediction_try_def print_line_sign)
  next
    case False
    with Inr show ?thesis by (simp add: prediction_try_def print_line_sign)
  qed
qed

lemma example_not_encoded:
  "test_api_endpoints False mock_get = (Some (encode_error ''U+1F50D''), []) \<and>
   test_prediction_endpoint False mock_post_500 = (Some (encode_error ''U+274C''), [])"
  by (simp add: test_api_endpoints_def test_prediction_endpoint_def prediction_try_def
      mock_post_500_def print_line_sign)

lemma prediction_not_encoded:
  assumes "\<forall>u e. post u = Inl e \<longrightarrow> is_Exception e"
    and "\<forall>u r e. post u = Inr r \<longrightarrow> resp_json r = Inl e \<longrightarrow> is_Exception e"
  shows "test_prediction_endpoint False post = (Some (encode_error ''U+26A0''), []) \<or>
         test_prediction_endpoint False post = (Some (encode_error ''U+274C''), [])"
proof -
  from prediction_try_not_encoded[OF assms] obtain e
    where "prediction_try False post = (Some e, [])" "is_Exception e"
    by blast
  then show ?thesis
    by (simp add: test_prediction_endpoint_def print_line_sign)
qed

subsection \<open>The classification\<close>




section \<open>Properties of the retraining job\<close>

subsection \<open>Sequencing and printing\<close>

lemma bind_w_Inr:
  assumes "bind_w r f = (Inr y, w')"
  obtains x w where "r = (Inr x, w)" "f x w = (Inr y, w')"
  using assms unfolding bind_w_def by (auto split: prod.splits sum.splits)

lemma bind_w_Inl:
  assumes "bind_w r f = (Inl e, w')"
  shows "r = (Inl e, w') \<or> (\<exists>x w. r = (Inr x, w) \<and> f x w = (Inl e, w'))"
  using assms unfolding bind_w_def by (auto split: prod.splits sum.splits)

lemma bind_w_csv_reads:
  assumes "\<And>x w. csv_reads (snd (f x w)) = csv_reads w"
  shows "csv_reads (snd (bind_w r f)) = csv_reads (snd r)"
  using assms unfolding bind_w_def by (auto split: prod.splits sum.splits)

lemma bind_w_pair [simp]:
  "bind_w (Inr x, w) f = f x w" "bind_w (Inl e, w) f = (Inl e, w)"
  by (simp_all add: bind_w_def)

lemma say_encodes:
  "stdout_encodes env \<Longrightarrow> say env l w = (Inr (), w\<lparr>printed := printed w @ [l]\<rparr>)"
  by (simp add: say_def print_raises_def split: option.splits)

lemma say_not_encodes:
  "\<not> stdout_encodes env \<Longrightarrow> retrain_sign l = Some c \<Longrightarrow> say env l w = (Inl (encode_error c), w)"
  by (simp add: say_def print_raises_def)

lemma say_csv_reads [simp]: "csv_reads (snd (say env l w)) = csv_reads w"
  by (simp add: say_def split: option.splits)

lemma say_Inl:
  assumes "say env l w = (Inl e, w')"
  shows "is_Exception e"
  using assms
  by (auto simp: say_def print_raises_def encode_error_def is_Exception_def
      split: option.splits if_splits)

subsection \<open>The steps on a standard output that encodes the signs\<close>

lemma load_data_encodes:
  assumes "stdout_encodes env"
  shows "load_data env new_data_path w =
     (if truthy new_data_path \<and> path_exists env (the new_data_path)
      then (read_csv env (the new_data_path),
            w\<lparr>printed := printed w @ [Loading_new (the new_data_path)],
              csv_reads := csv_reads w @ [the new_data_path]\<rparr>)
      else (read_csv env ''../data/housing.csv'',
            w\<lparr>printed := printed w @ [Loading_existing],
              csv_reads := csv_reads w @ [''../data/housing.csv'']\<rparr>))"
  by (simp add: load_data_def say_encodes[OF assms])

lemma load_data_not_encodes:
  assumes "\<not> stdout_encodes env"
  shows "load_data env new_data_path w = (Inl (encode_error ''U+1F504''), w)"
  by (simp add: load_data_def say_not_encodes[OF assms])

lemma load_data_Inr_encodes:
  assumes "load_data env new_data_path w = (Inr df, w')"
  shows "stdout_encodes env"
  using assms load_data_not_encodes[of env new_data_path w] by auto

lemma train_and_log_model_encodes:
  assumes "stdout_encodes env"
  shows "train_and_log_model env model model_name parts model_performance w =
     (case fit_and_log env model model_name parts of
        Inl e \<Rightarrow> (Inl e, w)
      | Inr m \<Rightarrow>
          (Inr (dict_set model_name m model_performance),
           w\<lparr>printed := printed w @ [Model_saved model_name (mse m) (r2 m)]\<rparr>))"
  by (simp add: train_and_log_model_def say_encodes[OF assms] split: sum.splits)

lemma comparison_loop_encodes:
  assumes "stdout_encodes env"
  shows "comparison_loop env perf w =
     (Inr (), w\<lparr>printed := printed w @ map (\<lambda>(n, m). Comparison_line n (mse m) (r2 m)) perf\<rparr>)"
  by (induction perf arbitrary: w) (auto simp: say_encodes[OF assms])

lemma select_best_two:
  assumes "stdout_encodes env"
  shows "select_best env [(''LinearRegression'', a), (''DecisionTree'', b)] w =
     (let (n, m) = (if mse b < mse a then (''DecisionTree'', b) else (''LinearRegression'', a))
      in (Inr (n, m),
          w\<lparr>printed := printed w @
              [Comparison_header, Comparison_rule,
               Comparison_line ''LinearRegression'' (mse a) (r2 a),
               Comparison_line ''DecisionTree'' (mse b) (r2 b),
               Best_model n, Best_mse (mse m), Best_r2 (r2 m)]\<rparr>))"
  by (simp add: select_best_def py_min_def dict_get_def bind_exn_def
      say_encodes[OF assms] comparison_loop_encodes[OF assms])

lemma register_best_encodes:
  assumes "stdout_encodes env"
  shows "register_best env best_metrics w =
     (case register_model env (''runs:/'' @ run_id best_metrics @ ''/model'')
             ''HousingPricePredictor'' of
        Inr version \<Rightarrow> (Inr (), w\<lparr>printed := printed w @ [Registered version]\<rparr>)
      | Inl e \<Rightarrow>
          if is_Exception e
          then (Inr (), w\<lparr>printed := printed w @ [Register_warning (exn_str e)]\<rparr>)
          else (Inl e, w))"
  by (simp add: register_best_def say_encodes[OF assms] split: sum.splits)

lemma save_results_encodes:
  assumes "stdout_encodes env"
  shows "save_results env new_data_path best_model_name best_metrics model_performance w =
     (let retrain_results =
            \<lparr>retrain_timestamp = now_isoformat env,
             best_model = best_model_name,
             performance = best_metrics,
             all_models = model_performance,
             data_source = (if truthy new_data_path then the new_data_path
                            else ''existing_data'')\<rparr>
      in case json_dump env ''../retrain_results.json'' retrain_results of
           Some e \<Rightarrow> (Inl e, w\<lparr>dumped := dumped w @ [retrain_results]\<rparr>)
         | None \<Rightarrow> (Inr retrain_results,
                    w\<lparr>printed := printed w @ [Completed],
                      dumped := dumped w @ [retrain_results]\<rparr>))"
  by (simp add: save_results_def Let_def say_encodes[OF assms] split: option.splits)



lemma retrain_not_encoded:
  assumes "\<not> stdout_encodes env"
  shows "retrain_housing_model env new_data_path w0 = (Raises (encode_error ''U+274C''), w0)"
  by (simp add: retrain_housing_model_def retrain_body_def train_and_select_def
      load_data_not_encodes[OF assms] say_not_encodes[OF assms] encode_error_def
      is_Exception_def)

lemma retrain_returns_results:
  "fst (retrain_housing_model env p w0) = Returns (Results s) \<longleftrightarrow>
     fst (retrain_body env p w0) = Inr s"
  unfolding retrain_housing_model_def
  by (auto split: prod.splits sum.splits)

lemma retrain_pair_results:
  "retrain_housing_model env p w0 = (Returns (Results s), w') \<longleftrightarrow>
     retrain_body env p w0 = (Inr s, w')"
  unfolding retrain_housing_model_def
  by (auto split: prod.splits sum.splits)

subsection \<open>The choice of the best model\<close>

lemma train_and_select_success:
  assumes "train_and_select env p w0 = (Inr (perf, name, bm), w')"
  obtains df parts m_lr m_dt where
    "stdout_encodes env"
    "fst (load_data env p w0) = Inr df"
    "prepare env df = Inr parts"
    "fit_and_log env LinearRegression ''LinearRegression'' parts = Inr m_lr"
    "fit_and_log env (DecisionTreeRegressor 5) ''DecisionTree'' parts = Inr m_dt"
    "perf = [(''LinearRegression'', m_lr), (''DecisionTree'', m_dt)]"
    "(name, bm) = (if mse m_dt < mse m_lr then (''DecisionTree'', m_dt)
                   else (''LinearRegression'', m_lr))"
proof -
  from assms obtain df w1 where 1: "load_data env p w0 = (Inr df, w1)"
    and r1: "bind_w (prepare env df, w1) (\<lambda>parts w.
       bind_w (train_and_log_model env LinearRegression ''LinearRegression'' parts [] w)
         (\<lambda>model_performance w.
       bind_w (train_and_log_model env (DecisionTreeRegressor 5) ''DecisionTree'' parts
                 model_performance w)
         (\<lambda>model_performance w.
       bind_w (select_best env model_performance w) (\<lambda>(best_model_name, best_metrics) w.
         (Inr (model_performance, best_model_name, best_metrics), w))))) =
       (Inr (perf, name, bm), w')"
    unfolding train_and_select_def by (rule bind_w_Inr)
  from 1 have enc: "stdout_encodes env" by (rule load_data_Inr_encodes)
  from r1 obtain parts w2 where 2: "(prepare env df, w1) = (Inr parts, w2)"
    and r2: "bind_w (train_and_log_model env LinearRegression ''LinearRegression'' parts [] w2)
         (\<lambda>model_performance w.
       bind_w (train_and_log_model env (DecisionTreeRegressor 5) ''DecisionTree'' parts
                 model_performance w)
         (\<lambda>model_performance w.
       bind_w (select_best env model_performance w) (\<lambda>(best_model_name, best_metrics) w.
         (Inr (model_performance, best_model_name, best_metrics), w)))) =
       (Inr (perf, name, bm), w')"
    by (rule bind_w_Inr)
  from r2 obtain perf1 w3
    where 3: "train_and_log_model env LinearRegression ''LinearRegression'' parts [] w2 =
        (Inr perf1, w3)"
    and r3: "bind_w (train_and_log_model env (DecisionTreeRegressor 5) ''DecisionTree'' parts
                 perf1 w3)
         (\<lambda>model_performance w.
       bind_w (select_best env model_performance w) (\<lambda>(best_model_name, best_metrics) w.
         (Inr (model_performance, best_model_name, best_metrics), w))) =
       (Inr (perf, name, bm), w')"
    by (rule bind_w_Inr)
  from r3 obtain perf2 w4
    where 4: "train_and_log_model env (DecisionTreeRegressor 5) ''DecisionTree'' parts perf1 w3 =
        (Inr perf2, w4)"
    and r4: "bind_w (select_best env perf2 w4) (\<lambda>(best_model_name, best_metrics) w.
         (Inr (perf2, best_model_name, best_metrics), w)) = (Inr (perf, name, bm), w')"
    by (rule bind_w_Inr)
  from 3 obtain m_lr where lr: "fit_and_log env LinearRegression ''LinearRegression'' parts = Inr m_lr"
    and p1: "perf1 = [(''LinearRegression'', m_lr)]"
    unfolding train_and_log_model_encodes[OF enc] by (auto split: sum.splits)
  from 4 obtain m_dt
    where dt: "fit_and_log env (DecisionTreeRegressor 5) ''DecisionTree'' parts = Inr m_dt"
    and p2: "perf2 = [(''LinearRegression'', m_lr), (''DecisionTree'', m_dt)]"
    unfolding train_and_log_model_encodes[OF enc] p1 by (auto split: sum.splits)
  from r4 obtain nb w5 where 5: "select_best env perf2 w4 = (Inr nb, w5)"
    and e: "perf = perf2" "nb = (name, bm)"
    unfolding bind_w_def by (auto split: prod.splits sum.splits)
  from 5 have nb: "nb = (if mse m_dt < mse m_lr then (''DecisionTree'', m_dt)
                   else (''LinearRegression'', m_lr))"
    unfolding p2 select_best_two[OF enc] by (simp split: if_splits)
  show thesis
  proof (rule that)
    show "stdout_encodes env" by (rule enc)
    show "fst (load_data env p w0) = Inr df" using 1 by simp
    show "prepare env df = Inr parts" using 2 by simp
    show "fit_and_log env LinearRegression ''LinearRegression'' parts = Inr m_lr" by (rule lr)
    show "fit_and_log env (DecisionTreeRegressor 5) ''DecisionTree'' parts = Inr m_dt" by (rule dt)
    show "perf = [(''LinearRegression'', m_lr), (''DecisionTree'', m_dt)]" using e p2 by simp
    show "(name, bm) = (if mse m_dt < mse m_lr then (''DecisionTree'', m_dt)
                   else (''LinearRegression'', m_lr))" using nb e by simp
  qed
qed

lemma retrain_body_success:
  assumes "retrain_body env p w0 = (Inr s, w')"
  obtains perf name bm w1 w2 where
    "train_and_select env p w0 = (Inr (perf, name, bm), w1)"
    "register_best env bm w1 = (Inr (), w2)"
    "save_results env p name bm perf w2 = (Inr s, w')"
proof -
  from assms obtain x w1 where 1: "train_and_select env p w0 = (Inr x, w1)"
    and r1: "(case x of (model_performance, best_model_name, best_metrics) \<Rightarrow> \<lambda>w.
       bind_w (register_best env best_metrics w) (\<lambda>u w.
         save_results env p best_model_name best_metrics model_performance w)) w1 = (Inr s, w')"
    unfolding retrain_body_def by (rule bind_w_Inr)
  obtain perf name bm where x: "x = (perf, name, bm)" by (cases x)
  from r1 have "bind_w (register_best env bm w1) (\<lambda>u w.
         save_results env p name bm perf w) = (Inr s, w')"
    by (simp add: x)
  then obtain u w2 where "register_best env bm w1 = (Inr u, w2)"
    "save_results env p name bm perf w2 = (Inr s, w')"
    by (rule bind_w_Inr)
  with 1 x show thesis by (intro that) simp_all
qed

lemma retrain_body_Inr_encodes:
  assumes "retrain_body env p w0 = (Inr s, w')"
  shows "stdout_encodes env"
proof -
  from assms obtain perf name bm w1
    where "train_and_select env p w0 = (Inr (perf, name, bm), w1)"
    by (rule retrain_body_success)
  then show ?thesis by (rule train_and_select_success)
qed

lemma save_results_fields:
  assumes "stdout_encodes env" "save_results env p name bm perf w = (Inr s, w')"
  shows "best_model s = name" "performance s = bm" "all_models s = perf"
    "data_source s = (if truthy p then the p else ''existing_data'')"
    "retrain_timestamp s = now_isoformat env"
    "dumped w' = dumped w @ [s]" "printed w' = printed w @ [Completed]"
    "csv_reads w' = csv_reads w"
  using assms(2) unfolding save_results_encodes[OF assms(1)]
  by (auto simp: Let_def split: option.splits)

subsection \<open>The example run\<close>

lemmas retrain_defs =
  retrain_housing_model_def retrain_body_def train_and_select_def load_data_def prepare_def
  split_data_def train_and_log_model_def select_best_def register_best_def save_results_def
  bind_exn_def truthy_def say_def print_raises_def py_min_def dict_get_def Let_def
  is_Exception_def

lemma example_retrain_missing:
  "retrain_housing_model example_retrain_env (Some ''missing.csv'') empty_world =
     (Returns (Results (example_results ''missing.csv'')),
      \<lparr>printed =
         [Loading_existing, Model_saved ''LinearRegression'' 0.5 0.6,
          Model_saved ''DecisionTree'' 0.7 0.4, Comparison_header, Comparison_rule,
          Comparison_line ''LinearRegression'' 0.5 0.6, Comparison_line ''DecisionTree'' 0.7 0.4,
          Best_model ''LinearRegression'', Best_mse 0.5, Best_r2 0.6, Registered ''1'',
          Completed],
       csv_reads = [''../data/housing.csv''],
       dumped = [example_results ''missing.csv'']\<rparr>)"
  by (simp add: retrain_defs example_retrain_env_def example_split_def empty_world_def
      example_results_def)


subsection \<open>The best model\<close>




subsection \<open>The dataset that is read\<close>

lemma comparison_loop_csv_reads:
  "csv_reads (snd (comparison_loop env perf w)) = csv_reads w"
  by (induction perf arbitrary: w) (auto simp: bind_w_csv_reads)

lemma select_best_csv_reads:
  "csv_reads (snd (select_best env perf w)) = csv_reads w"
  unfolding select_best_def
  by (simp add: bind_w_csv_reads comparison_loop_csv_reads)

lemma train_and_log_model_csv_reads:
  "csv_reads (snd (train_and_log_model env model n parts perf w)) = csv_reads w"
  unfolding train_and_log_model_def by (simp add: bind_w_csv_reads split: sum.splits)

lemma register_best_csv_reads:
  "csv_reads (snd (register_best env bm w)) = csv_reads w"
  unfolding register_best_def
  by (cases "register_model env (''runs:/'' @ run_id bm @ ''/model'') ''HousingPricePredictor''")
     (auto split: prod.splits sum.splits
        dest: arg_cong[where f = "\<lambda>r. csv_reads (snd r)"])

lemma save_results_csv_reads:
  "csv_reads (snd (save_results env p name bm perf w)) = csv_reads w"
  unfolding save_results_def by (simp add: Let_def bind_w_csv_reads split: option.splits)

lemma train_and_select_csv_reads:
  "csv_reads (snd (train_and_select env p w0)) = csv_reads (snd (load_data env p w0))"
  unfolding train_and_select_def
  by (simp add: bind_w_csv_reads train_and_log_model_csv_reads select_best_csv_reads
      split: prod.splits)

lemma retrain_body_csv_reads:
  "csv_reads (snd (retrain_body env p w0)) = csv_reads (snd (load_data env p w0))"
proof -
  have "csv_reads (snd (retrain_body env p w0)) = csv_reads (snd (train_and_select env p w0))"
    unfolding retrain_body_def
    by (simp add: bind_w_csv_reads register_best_csv_reads save_results_csv_reads
        split: prod.splits)
  then show ?thesis by (simp add: train_and_select_csv_reads)
qed

lemma retrain_csv_reads:
  "csv_reads (snd (retrain_housing_model env p w0)) = csv_reads (snd (load_data env p w0))"
proof -
  obtain r w where b: "retrain_body env p w0 = (r, w)"
    by (cases "retrain_body env p w0")
  have "csv_reads (snd (retrain_housing_model env p w0)) = csv_reads w"
  proof (cases r)
    case (Inr s)
    with b show ?thesis by (simp add: retrain_housing_model_def)
  next
    case (Inl e)
    with b show ?thesis
      by (auto simp: retrain_housing_model_def split: prod.splits sum.splits
          dest: arg_cong[where f = "\<lambda>r. csv_reads (snd r)"])
  qed
  with b retrain_body_csv_reads[of env p w0] show ?thesis by simp
qed



subsection \<open>The source of the data in the summary\<close>

text \<open>
  The last sentence of C9, that \<open>data_source\<close> is \<open>existing_data\<close> only when
  \<open>new_data_path\<close> is \<open>None\<close> or empty, fails for the path \<open>existing_data\<close>: it is
  neither \<open>None\<close> nor empty, no such file exists, and the summary has
  \<open>existing_data\<close> as its \<open>data_source\<close>.
\<close>

theorem path_named_existing_data:
  "fst (retrain_housing_model example_retrain_env (Some ''existing_data'') empty_world) =
     Returns (Results (example_results ''existing_data'')) \<and>
   data_source (example_results ''existing_data'') = ''existing_data'' \<and>
   Some ''existing_data'' \<noteq> (None :: string option) \<and> ''existing_data'' \<noteq> []"
  by (simp add: retrain_defs example_retrain_env_def example_split_def empty_world_def
      example_results_def)

text \<open>
  C9, as the source has it.  In a summary that the call returns, \<open>data_source\<close> is
  \<open>existing_data\<close> when \<open>new_data_path\<close> is \<open>None\<close> or empty and \<open>new_data_path\<close>
  otherwise; so for a path that is not empty and does not exist, the canonical dataset is
  the one read and \<open>data_source\<close> is still the path given.  And \<open>data_source\<close> is
  \<open>existing_data\<close> exactly when \<open>new_data_path\<close> is \<open>None\<close>, empty, or the string
  \<open>existing_data\<close> itself.
\<close>

theorem data_source_is_the_given_path:
  assumes "fst (retrain_housing_model env new_data_path w0) = Returns (Results s)"
  shows "data_source s =
           (case new_data_path of
              None \<Rightarrow> ''existing_data''
            | Some p \<Rightarrow> if p = [] then ''existing_data'' else p) \<and>
         (\<forall>p. new_data_path = Some p \<and> p \<noteq> [] \<and> \<not> path_exists env p \<longrightarrow>
            data_source s = p \<and>
            csv_reads (snd (retrain_housing_model env new_data_path w0)) =
              csv_reads w0 @ [''../data/housing.csv'']) \<and>
         (data_source s = ''existing_data'' \<longleftrightarrow>
            new_data_path = None \<or> new_data_path = Some [] \<or>
            new_data_path = Some ''existing_data'')"
proof -
  from assms have "fst (retrain_body env new_data_path w0) = Inr s"
    by (simp add: retrain_returns_results)
  then obtain w' where b: "retrain_body env new_data_path w0 = (Inr s, w')"
    by (cases "retrain_body env new_data_path w0") auto
  then have enc: "stdout_encodes env" by (rule retrain_body_Inr_encodes)
  from b obtain perf name bm w2
    where "save_results env new_data_path name bm perf w2 = (Inr s, w')"
    by (rule retrain_body_success)
  with enc have "data_source s =
      (if truthy new_data_path then the new_data_path else ''existing_data'')"
    by (rule save_results_fields)
  then have 1: "data_source s =
           (case new_data_path of
              None \<Rightarrow> ''existing_data''
            | Some p \<Rightarrow> if p = [] then ''existing_data'' else p)"
    by (simp add: truthy_def split: option.splits)
  have 2: "csv_reads (snd (retrain_housing_model env new_data_path w0)) =
      csv_reads w0 @ [''../data/housing.csv'']"
    if "new_data_path = Some p" "p \<noteq> []" "\<not> path_exists env p" for p
    unfolding retrain_csv_reads using that by (simp add: load_data_encodes[OF enc])
  from 1 have 3: "data_source s = ''existing_data'' \<longleftrightarrow>
            new_data_path = None \<or> new_data_path = Some [] \<or>
            new_data_path = Some ''existing_data''"
    by (auto split: option.splits if_splits)
  from 1 2 3 show ?thesis by auto
qed

theorem data_source_is_the_given_path_witness:
  "fst (retrain_housing_model example_retrain_env (Some ''missing.csv'') empty_world) =
     Returns (Results (example_results ''missing.csv'')) \<and>
   \<not> path_exists example_retrain_env ''missing.csv'' \<and>
   data_source (example_results ''missing.csv'') = ''missing.csv'' \<and>
   csv_reads (snd (retrain_housing_model example_retrain_env (Some ''missing.csv'')
      empty_world)) = [''../data/housing.csv'']"
proof -
  have r: "fst (retrain_housing_model example_retrain_env (Some ''missing.csv'') empty_world) =
     Returns (Results (example_results ''missing.csv''))"
    by (simp add: example_retrain_missing)
  have n: "\<not> path_exists example_retrain_env ''missing.csv''"
    by (simp add: example_retrain_env_def)
  from data_source_is_the_given_path[OF r] n
  have "data_source (example_results ''missing.csv'') = ''missing.csv'' \<and>
      csv_reads (snd (retrain_housing_model example_retrain_env (Some ''missing.csv'')
        empty_world)) = csv_reads empty_world @ [''../data/housing.csv'']"
    by simp
  with r n show ?thesis by (simp add: empty_world_def)
qed


subsection \<open>Exceptions\<close>










subsection \<open>Registration\<close>

lemma say_register_model [simp]: "say (env\<lparr>register_model := r\<rparr>) = say env"
  by (intro ext) (simp add: say_def)

lemma comparison_loop_register_model [simp]:
  "comparison_loop (env\<lparr>register_model := r\<rparr>) perf = comparison_loop env perf"
proof (induction perf)
  case Nil
  show ?case by (rule ext) simp
next
  case (Cons x perf)
  show ?case by (rule ext) (cases x, simp add: Cons.IH)
qed

lemma load_data_register_model [simp]:
  "load_data (env\<lparr>register_model := r\<rparr>) = load_data env"
  by (intro ext) (simp add: load_data_def)

lemma prepare_register_model [simp]:
  "prepare (env\<lparr>register_model := r\<rparr>) = prepare env"
  by (intro ext) (simp add: prepare_def split_data_def)

lemma train_and_log_model_register_model [simp]:
  "train_and_log_model (env\<lparr>register_model := r\<rparr>) = train_and_log_model env"
  by (intro ext) (simp add: train_and_log_model_def split: sum.splits)

lemma select_best_register_model [simp]:
  "select_best (env\<lparr>register_model := r\<rparr>) = select_best env"
  by (intro ext) (simp add: select_best_def)

lemma train_and_select_register_model:
  "train_and_select (env\<lparr>register_model := r\<rparr>) p w = train_and_select env p w"
  by (simp add: train_and_select_def)

lemma save_results_register_model:
  "save_results (env\<lparr>register_model := r\<rparr>) p name bm perf w = save_results env p name bm perf w"
  by (simp add: save_results_def Let_def split: option.splits)

lemma save_results_world:
  assumes "stdout_encodes env"
  shows "save_results env p name bm perf w =
     (case fst (save_results env p name bm perf w0) of
        Inl e \<Rightarrow> (Inl e, w\<lparr>dumped := dumped w @ [\<lparr>retrain_timestamp = now_isoformat env,
             best_model = name, performance = bm, all_models = perf,
             data_source = (if truthy p then the p else ''existing_data'')\<rparr>]\<rparr>)
      | Inr s \<Rightarrow> (Inr s, w\<lparr>printed := printed w @ [Completed], dumped := dumped w @ [s]\<rparr>))"
  by (simp add: save_results_encodes[OF assms] Let_def split: option.splits)

text \<open>
  C3, as the source has it.  Take a call that returns the summary \<open>s\<close> when the
  registration succeeds with version \<open>v\<close>.  When instead the registration of the best
  model raises an instance \<open>e\<close> of \<open>Exception\<close>, the call returns the same summary
  \<open>s\<close>; it prints the same lines up to the registration, then the warning with
  \<open>str(e)\<close> in place of the line about the version, then the closing line, and it writes
  \<open>s\<close> to \<open>retrain_results.json\<close>.
\<close>

theorem registration_failure_is_reported:
  assumes ok: "retrain_housing_model (env\<lparr>register_model := (\<lambda>u n. Inr v)\<rparr>) p w0 =
      (Returns (Results s), w_ok)"
    and fail: "register_model env (''runs:/'' @ run_id (performance s) @ ''/model'')
      ''HousingPricePredictor'' = Inl e"
    and exc: "is_Exception e"
  shows "\<exists>w' pre d.
     retrain_housing_model env p w0 = (Returns (Results s), w') \<and>
     printed w_ok = pre @ [Registered v, Completed] \<and>
     printed w' = pre @ [Register_warning (exn_str e), Completed] \<and>
     dumped w' = d @ [s] \<and> dumped w_ok = d @ [s]"
proof -
  let ?env = "env\<lparr>register_model := (\<lambda>u n. Inr v)\<rparr>"
  from ok have b: "retrain_body ?env p w0 = (Inr s, w_ok)"
    by (simp add: retrain_pair_results)
  then have "stdout_encodes ?env" by (rule retrain_body_Inr_encodes)
  then have enc: "stdout_encodes env" by simp
  from b obtain perf name bm w1 w2
    where ts: "train_and_select ?env p w0 = (Inr (perf, name, bm), w1)"
      and rb: "register_best ?env bm w1 = (Inr (), w2)"
      and sv: "save_results ?env p name bm perf w2 = (Inr s, w_ok)"
    by (rule retrain_body_success)
  from ts have ts': "train_and_select env p w0 = (Inr (perf, name, bm), w1)"
    by (simp add: train_and_select_register_model)
  from rb have w2: "w2 = w1\<lparr>printed := printed w1 @ [Registered v]\<rparr>"
    by (simp add: register_best_def say_encodes[OF enc])
  from sv have sv': "save_results env p name bm perf w2 = (Inr s, w_ok)"
    by (simp add: save_results_register_model)
  have bm: "performance s = bm" using enc sv' by (rule save_results_fields)
  let ?w2 = "w1\<lparr>printed := printed w1 @ [Register_warning (exn_str e)]\<rparr>"
  have rb': "register_best env bm w1 = (Inr (), ?w2)"
    using fail exc by (simp add: register_best_encodes[OF enc] bm[symmetric])
  from sv' have f: "fst (save_results env p name bm perf w2) = Inr s" by simp
  have ok_w: "w_ok = w2\<lparr>printed := printed w2 @ [Completed], dumped := dumped w2 @ [s]\<rparr>"
    using sv' save_results_world[OF enc, of p name bm perf w2 w2] f by simp
  let ?w' = "?w2\<lparr>printed := printed ?w2 @ [Completed], dumped := dumped ?w2 @ [s]\<rparr>"
  have sv2: "save_results env p name bm perf ?w2 = (Inr s, ?w')"
    using save_results_world[OF enc, of p name bm perf ?w2 w2] f by simp
  have "retrain_body env p w0 = (Inr s, ?w')"
    by (simp add: retrain_body_def ts' rb' sv2)
  then have 1: "retrain_housing_model env p w0 = (Returns (Results s), ?w')"
    by (simp add: retrain_pair_results)
  have 2: "printed w_ok = printed w1 @ [Registered v, Completed]"
    by (simp add: ok_w w2)
  have 3: "printed ?w' = printed w1 @ [Register_warning (exn_str e), Completed]"
    by simp
  have 4: "dumped ?w' = dumped w1 @ [s]" "dumped w_ok = dumped w1 @ [s]"
    by (simp_all add: ok_w w2)
  from 1 2 3 4 show ?thesis by blast
qed

lemma example_retrain_new:
  "retrain_housing_model (rejected_register_env\<lparr>register_model := (\<lambda>u n. Inr ''1'')\<rparr>)
      (Some ''../data/new.csv'') empty_world =
     (Returns (Results (example_results ''../data/new.csv'')),
      \<lparr>printed =
         [Loading_new ''../data/new.csv'', Model_saved ''LinearRegression'' 0.5 0.6,
          Model_saved ''DecisionTree'' 0.7 0.4, Comparison_header, Comparison_rule,
          Comparison_line ''LinearRegression'' 0.5 0.6, Comparison_line ''DecisionTree'' 0.7 0.4,
          Best_model ''LinearRegression'', Best_mse 0.5, Best_r2 0.6, Registered ''1'',
          Completed],
       csv_reads = [''../data/new.csv''],
       dumped = [example_results ''../data/new.csv'']\<rparr>)"
  by (simp add: retrain_defs rejected_register_env_def example_retrain_env_def example_split_def
      empty_world_def example_results_def)

theorem registration_failure_is_reported_witness:
  "\<exists>w'. retrain_housing_model rejected_register_env (Some ''../data/new.csv'') empty_world =
       (Returns (Results (example_results ''../data/new.csv'')), w') \<and>
     printed w' =
       [Loading_new ''../data/new.csv'', Model_saved ''LinearRegression'' 0.5 0.6,
        Model_saved ''DecisionTree'' 0.7 0.4, Comparison_header, Comparison_rule,
        Comparison_line ''LinearRegression'' 0.5 0.6, Comparison_line ''DecisionTree'' 0.7 0.4,
        Best_model ''LinearRegression'', Best_mse 0.5, Best_r2 0.6,
        Register_warning ''already registered'', Completed] \<and>
     dumped w' = [example_results ''../data/new.csv'']"
proof -
  have fail: "register_model rejected_register_env
      (''runs:/'' @ run_id (performance (example_results ''../data/new.csv'')) @ ''/model'')
      ''HousingPricePredictor'' = Inl (Exn OtherException ''already registered'')"
    by (simp add: rejected_register_env_def)
  have exc: "is_Exception (Exn OtherException ''already registered'')"
    by (simp add: is_Exception_def)
  from registration_failure_is_reported[OF example_retrain_new fail exc]
  obtain w' pre d
    where r: "retrain_housing_model rejected_register_env (Some ''../data/new.csv'') empty_world =
        (Returns (Results (example_results ''../data/new.csv'')), w')"
      and p: "[Loading_new ''../data/new.csv'', Model_saved ''LinearRegression'' 0.5 0.6,
          Model_saved ''DecisionTree'' 0.7 0.4, Comparison_header, Comparison_rule,
          Comparison_line ''LinearRegression'' 0.5 0.6, Comparison_line ''DecisionTree'' 0.7 0.4,
          Best_model ''LinearRegression'', Best_mse 0.5, Best_r2 0.6, Registered ''1'',
          Completed] = pre @ [Registered ''1'', Completed]"
      and p': "printed w' = pre @ [Register_warning ''already registered'', Completed]"
      and d: "dumped w' = d @ [example_results ''../data/new.csv'']"
        "[example_results ''../data/new.csv''] = d @ [example_results ''../data/new.csv'']"
    by auto
  from p have "pre = [Loading_new ''../data/new.csv'', Model_saved ''LinearRegression'' 0.5 0.6,
          Model_saved ''DecisionTree'' 0.7 0.4, Comparison_header, Comparison_rule,
          Comparison_line ''LinearRegression'' 0.5 0.6, Comparison_line ''DecisionTree'' 0.7 0.4,
          Best_model ''LinearRegression'', Best_mse 0.5, Best_r2 0.6]"
    by (simp add: append_eq_Cons_conv[of pre] Cons_eq_append_conv)
  moreover from d(2) have "d = []" by simp
  ultimately show ?thesis using r p' d(1) by simp
qed

text \<open>
  The sentence of C3 that any exception of the registration is caught fails for an
  exception outside \<open>Exception\<close>: when the registration is interrupted from the keyboard,
  the call raises \<open>KeyboardInterrupt\<close> and writes no summary.
\<close>

theorem interrupted_registration_propagates:
  "retrain_housing_model interrupted_register_env None empty_world =
     (Raises (Exn NonException ''KeyboardInterrupt''),
      \<lparr>printed =
         [Loading_existing, Model_saved ''LinearRegression'' 0.5 0.6,
          Model_saved ''DecisionTree'' 0.7 0.4, Comparison_header, Comparison_rule,
          Comparison_line ''LinearRegression'' 0.5 0.6, Comparison_line ''DecisionTree'' 0.7 0.4,
          Best_model ''LinearRegression'', Best_mse 0.5, Best_r2 0.6],
       csv_reads = [''../data/housing.csv''], dumped = []\<rparr>)"
  by (simp add: retrain_defs interrupted_register_env_def example_retrain_env_def
      example_split_def empty_world_def)

end
